theory Spec2Isabelle
  imports Complex_Main
begin

text \<open>
  A shallow embedding of the two backend adapters of the library, the one for Google's
  generative models and the one for OpenAI's chat completions with its OpenRouter
  subclass: the capability predicates, the construction of the request, the
  non-streaming turn with its tool hops (\<open>chat\<close>), and the translation of the chunks of
  a streaming turn (\<open>doStream\<close>, \<open>nativeChunkToLlmChunk\<close>). Logging, the listing of
  models, the configuration of the client and the attachments of a message take no part
  in these and are left out.
\<close>

section \<open>Values of the host language\<close>

text \<open>
  A JavaScript number is a double; only its truthiness and its sum are used by the
  adapters. It is modelled as a real or NaN: \<open>0\<close> and \<open>NaN\<close> are falsy, every
  other number is truthy, and a sum with \<open>NaN\<close> (or with \<open>undefined\<close>) is \<open>NaN\<close>.
  The numbers that are added are token counts: integers, on which the sum of two doubles
  is the exact sum as long as it stays below \<open>2^53\<close>; the rounding of larger sums is
  not modelled.
\<close>

datatype jsnum = Num real | NaN

fun truthy :: "jsnum \<Rightarrow> bool" where
  "truthy (Num r) = (r \<noteq> 0)"
| "truthy NaN = False"

fun jsadd :: "jsnum \<Rightarrow> jsnum \<Rightarrow> jsnum" where
  "jsadd (Num a) (Num b) = Num (a + b)"
| "jsadd _ _ = NaN"

text \<open>\<open>s.startsWith(p)\<close> and \<open>s.includes(p)\<close> on strings.\<close>

fun startsWith :: "string \<Rightarrow> string \<Rightarrow> bool" where
  "startsWith s [] = True"
| "startsWith [] (p # ps) = False"
| "startsWith (c # cs) (p # ps) = (c = p \<and> startsWith cs ps)"

fun js_includes :: "string \<Rightarrow> string \<Rightarrow> bool" where
  "js_includes [] p = (p = [])"
| "js_includes (c # cs) p = (startsWith (c # cs) p \<or> js_includes cs p)"

text \<open>JSON values: tool arguments, tool results and the opaque custom options.\<close>

datatype json =
    JNull
  | JBool bool
  | JNum jsnum
  | JStr string
  | JArr "json list"
  | JObj "(string \<times> json) list"

text \<open>What the adapters can throw: the errors of the host language, the error the OpenAI
  adapter raises for tool arguments that are not JSON (it names the tool and the
  arguments), and the error of the Google client library for an answer that was
  blocked.\<close>

datatype error =
    TypeError
  | SyntaxError
  | InvalidJsonArgs string string
  | ResponseError

text \<open>
  The result of a call that has effects on the tool registry (its state is \<open>'w\<close>):
  either it returns a value, or it throws; both leave a registry state behind.
\<close>

datatype ('a, 'w) outcome = Returned 'a 'w | Threw error 'w

section \<open>Completion options\<close>

text \<open>
  \<open>LlmCompletionOpts\<close>: every field is optional. The adapters read the options only
  through \<open>opts?.field\<close>, so an \<open>undefined\<close> options object is the record with every
  field \<open>None\<close>.
\<close>

record LlmCompletionOpts =
  maxTokens :: "jsnum option"
  temperature :: "jsnum option"
  top_k :: "jsnum option"
  top_p :: "jsnum option"
  reasoningEffort :: "string option"
  tools :: "bool option"
  usage :: "bool option"
  customOpts :: "(string \<rightharpoonup> json) option"

definition noOpts :: LlmCompletionOpts where
  "noOpts = \<lparr>maxTokens = None, temperature = None, top_k = None, top_p = None,
     reasoningEffort = None, tools = None, usage = None, customOpts = None\<rparr>"

section \<open>The tool registry and the base engine\<close>

record ToolItems =
  i_type :: "string option"
  i_properties :: "json option"

record ToolParameter =
  p_type :: "string option"
  p_description :: "string option"
  p_items :: "ToolItems option"

record ToolParameters =
  tp_properties :: "(string \<times> ToolParameter) list"
  tp_required :: "string list"

record LlmTool =
  t_name :: string
  t_description :: string
  t_parameters :: "ToolParameters option"

record Attachment =
  a_content :: string
  a_mimeType :: string

record Message =
  msg_role :: string
  msg_content :: string
  contentForModel :: string
  attachment :: "Attachment option"

record LLmCompletionPayload =
  role :: string
  content :: string
  images :: "string list"

text \<open>
  The base class \<open>LlmEngine\<close> is not among the sources. What the two adapters call
  on it is taken as a parameter: the registered tools, the tool invocation (which may
  change the registry's state \<open>'w\<close>), the two status descriptions, the base
  \<open>buildPayload\<close> and \<open>selectModel\<close>; and the built-in \<open>JSON.parse\<close> (\<open>None\<close> when
  it throws) and \<open>JSON.stringify\<close>.
\<close>

record 'w Engine =
  getAvailableTools :: "LlmTool list"
  callTool :: "string \<Rightarrow> json \<Rightarrow> 'w \<Rightarrow> json \<times> 'w"
  getToolPreparationDescription :: "string \<Rightarrow> string"
  getToolRunningDescription :: "string \<Rightarrow> json \<Rightarrow> string"
  super_buildPayload :: "string \<Rightarrow> Message list \<Rightarrow> LlmCompletionOpts \<Rightarrow> LLmCompletionPayload list"
  selectModel :: "string \<Rightarrow> Message list \<Rightarrow> LlmCompletionOpts \<Rightarrow> string"
  JSON_parse :: "string \<Rightarrow> json option"
  JSON_stringify :: "json \<Rightarrow> string"

section \<open>Usage, tool calls and the shared chunk vocabulary\<close>

record PromptTokensDetails =
  cached_tokens :: "jsnum option"
  p_audio_tokens :: "jsnum option"

record CompletionTokensDetails =
  reasoning_tokens :: "jsnum option"
  c_audio_tokens :: "jsnum option"

record LlmUsage =
  prompt_tokens :: jsnum
  completion_tokens :: jsnum
  total_tokens :: "jsnum option"
  prompt_tokens_details :: "PromptTokensDetails option"
  completion_tokens_details :: "CompletionTokensDetails option"

record LlmToolCallInfo =
  tci_name :: string
  tci_params :: json
  tci_result :: json

record LlmResponse =
  r_type :: string
  r_content :: string
  r_toolCalls :: "LlmToolCallInfo list"
  r_usage :: "LlmUsage option"

text \<open>
  \<open>LlmToolCall\<close>: the in-flight record of a streaming tool call. Its \<open>message\<close> is
  \<open>any\<close> in the source: a string for one adapter, the delta objects for the other.
\<close>

record 'm LlmToolCall =
  tc_id :: string
  tc_message :: 'm
  tc_function :: string
  tc_args :: string

text \<open>
  \<open>LlmChunk\<close>: the events a streaming turn yields. A \<open>stream\<close> event carries the
  newly opened backend stream, which is identified by the request that opened it.
\<close>

datatype 's LlmChunk =
    ToolChunk string "string option" bool "(json \<times> json) option"
  | ContentChunk string bool
  | ReasoningChunk string bool
  | StreamChunk 's
  | UsageChunk LlmUsage

fun isContent :: "'s LlmChunk \<Rightarrow> bool" where
  "isContent (ContentChunk t d) = True"
| "isContent _ = False"

fun isContentDone :: "'s LlmChunk \<Rightarrow> bool" where
  "isContentDone (ContentChunk t d) = d"
| "isContentDone _ = False"

fun isUsage :: "'s LlmChunk \<Rightarrow> bool" where
  "isUsage (UsageChunk u) = True"
| "isUsage _ = False"

text \<open>What one call of \<open>nativeChunkToLlmChunk\<close> leaves behind: the events it yielded,
  the context and the registry as it mutated them, and the error if it threw.\<close>

record ('s, 'c, 'w) translation =
  events :: "'s LlmChunk list"
  ctx :: 'c
  world :: 'w
  thrown :: "error option"

section \<open>The Google adapter\<close>

subsection \<open>Capabilities\<close>

fun modelStartsWith :: "string \<Rightarrow> string list \<Rightarrow> bool" where
  "modelStartsWith model [] = False"
| "modelStartsWith model (p # prefix) =
     (if startsWith model p then True else modelStartsWith model prefix)"

definition supportsInstructions :: "string \<Rightarrow> bool" where
  "supportsInstructions model = (modelStartsWith model [''models/gemini-pro''] = False)"

definition supportsTools :: "string \<Rightarrow> bool" where
  "supportsTools model = (js_includes model ''thinking'' = False)"

subsection \<open>The model object and the generation configuration\<close>

record FDEntry =
  e_description :: "string option"
  e_type :: "string option"
  e_items :: "ToolItems option"

record FDParameters =
  fdp_type :: string
  fdp_properties :: "(string \<times> FDEntry) list"
  fdp_required :: "string list"

record FunctionDeclaration =
  fd_name :: string
  fd_description :: string
  fd_parameters :: "FDParameters option"

record ModelParams =
  mp_model :: string
  mp_systemInstruction :: "string option"
  mp_toolConfig :: "string option"
  mp_tools :: "FunctionDeclaration list list option"

text \<open>One property schema of a tool: an array, or anything with \<open>items\<close>, keeps only
  its items (whose type defaults to \<open>string\<close>) and no type.\<close>

definition toEntry :: "ToolParameter \<Rightarrow> FDEntry" where
  "toEntry paramSchema =
     (if p_type paramSchema = Some ''array'' \<or> p_items paramSchema \<noteq> None
      then \<lparr>e_description = p_description paramSchema, e_type = None,
            e_items = Some \<lparr>
              i_type = Some (case p_items paramSchema of
                  None \<Rightarrow> ''string''
                | Some it \<Rightarrow> (case i_type it of
                      None \<Rightarrow> ''string''
                    | Some t \<Rightarrow> if t = [] then ''string'' else t)),
              i_properties = (case p_items paramSchema of
                  None \<Rightarrow> None
                | Some it \<Rightarrow> i_properties it)\<rparr>\<rparr>
      else \<lparr>e_description = p_description paramSchema, e_type = p_type paramSchema,
            e_items = None\<rparr>)"

text \<open>The member \<open>SchemaType.OBJECT\<close> of the client library's enumeration, whose value at
  run time is the lower-case name of the type.\<close>

definition SchemaType_OBJECT :: string where
  "SchemaType_OBJECT = ''object''"

text \<open>\<open>parameters?.properties ?? {}\<close> and \<open>parameters?.required ?? []\<close>: a tool with
  no parameters object has no properties and no required names.\<close>

definition toFunctionDeclaration :: "LlmTool \<Rightarrow> FunctionDeclaration" where
  "toFunctionDeclaration tool =
     (let props = (case t_parameters tool of None \<Rightarrow> [] | Some ps \<Rightarrow> tp_properties ps);
          required = (case t_parameters tool of None \<Rightarrow> [] | Some ps \<Rightarrow> tp_required ps)
      in \<lparr>fd_name = t_name tool, fd_description = t_description tool,
           fd_parameters =
             (if length props > 0
              then Some \<lparr>fdp_type = SchemaType_OBJECT,
                     fdp_properties =
                       map (\<lambda>(paramName, paramSchema). (paramName, toEntry paramSchema)) props,
                     fdp_required = required\<rparr>
              else None)\<rparr>)"

text \<open>\<open>getModel\<close>: function calling is switched on when the tools flag is \<open>true\<close> or
  \<open>top_k\<close> is given, the model supports tools and there is a declaration to send.\<close>

definition getModel ::
  "'w Engine \<Rightarrow> string \<Rightarrow> string option \<Rightarrow> LlmCompletionOpts \<Rightarrow> ModelParams" where
  "getModel E model instructions opts =
     (let modelParams = \<lparr>mp_model = model, mp_systemInstruction = None,
            mp_toolConfig = None, mp_tools = None\<rparr>;
          modelParams1 = (if supportsInstructions model
             then modelParams\<lparr>mp_systemInstruction := instructions\<rparr> else modelParams);
          availableTools = getAvailableTools E;
          functionDeclarations = map toFunctionDeclaration availableTools
      in if (tools opts = Some True \<or> top_k opts \<noteq> None) \<and> supportsTools model
            \<and> length functionDeclarations > 0
         then modelParams1\<lparr>mp_toolConfig := Some ''AUTO'',
                mp_tools := Some [functionDeclarations]\<rparr>
         else modelParams1)"

record GenerationConfig =
  maxOutputTokens :: "jsnum option"
  gc_temperature :: "jsnum option"
  topK :: "jsnum option"
  topP :: "jsnum option"

text \<open>\<open>opts?.x ? { key: opts?.x } : {}\<close>: the key is set when the option is truthy.\<close>

definition whenTruthy :: "jsnum option \<Rightarrow> jsnum option" where
  "whenTruthy v = (case v of None \<Rightarrow> None | Some n \<Rightarrow> if truthy n then Some n else None)"

definition getGenerationConfig :: "LlmCompletionOpts \<Rightarrow> GenerationConfig option" where
  "getGenerationConfig opts =
     (let config = \<lparr>maxOutputTokens = whenTruthy (maxTokens opts),
                     gc_temperature = whenTruthy (temperature opts),
                     topK = whenTruthy (top_k opts),
                     topP = whenTruthy (top_p opts)\<rparr>
      in if maxOutputTokens config = None \<and> gc_temperature config = None
            \<and> topK config = None \<and> topP config = None
         then None else Some config)"

subsection \<open>The payload\<close>

text \<open>The parts of a content, of the kinds the adapter sends to the backend and reads
  from its answers: a text, an image, a function call and the response to one.\<close>

datatype Part =
    TextPart string
  | InlineData string string
  | FunctionCallPart string json
  | FunctionResponsePart string json

record Content =
  c_role :: string
  c_parts :: "Part list"

definition messageToContent :: "LLmCompletionPayload \<Rightarrow> Content" where
  "messageToContent payload =
     \<lparr>c_role = (if role payload = ''assistant'' then ''model'' else role payload),
      c_parts = TextPart (content payload) # map (InlineData ''image/png'') (images payload)\<rparr>"

definition threadToHistory ::
  "'w Engine \<Rightarrow> Message list \<Rightarrow> string \<Rightarrow> LlmCompletionOpts \<Rightarrow> Content list" where
  "threadToHistory E thread modelName opts =
     (let hasInstructions = supportsInstructions modelName;
          payload = map (\<lambda>p. if role p = ''system'' then p\<lparr>role := ''user''\<rparr> else p)
            (super_buildPayload E modelName (drop (if hasInstructions then 1 else 0) thread) opts)
      in map messageToContent payload)"

subsection \<open>The backend's answers\<close>

record FunctionCall =
  fc_name :: string
  fc_args :: json

record UsageMetadata =
  promptTokenCount :: jsnum
  candidatesTokenCount :: jsnum

record Candidate =
  cand_parts :: "Part list"
  finishReason :: "string option"

text \<open>A response, or a chunk of a streamed one: its candidates, the feedback on the
  prompt (present when the prompt was blocked; its block reason) and the token counts.\<close>

record GoogleResponse =
  candidates :: "Candidate list option"
  promptFeedback :: "string option"
  usageMetadata :: "UsageMetadata option"

record GoogleRequest =
  rq_model :: ModelParams
  rq_contents :: "Content list"
  rq_generationConfig :: "GenerationConfig option"

text \<open>
  The adapter reads a response through its accessors \<open>functionCalls()\<close> and \<open>text()\<close>.
  They are methods the client library of the backend attaches to every response; the
  library is not part of the repository, and the accessors are written here as it defines
  them. Both look at the first candidate only. When that candidate ends with one of the
  finish reasons by which the backend blocks an answer, they throw; otherwise
  \<open>functionCalls()\<close> collects the function calls among the candidate's parts
  (\<open>undefined\<close> when there is none) and \<open>text()\<close> joins the texts among them. On a
  response without a candidate they throw when the prompt was blocked, and return
  \<open>undefined\<close> and the empty text otherwise.
\<close>

definition badFinishReasons :: "string list" where
  "badFinishReasons = [''RECITATION'', ''SAFETY'', ''LANGUAGE'']"

definition hadBadFinishReason :: "Candidate \<Rightarrow> bool" where
  "hadBadFinishReason candidate =
     (case finishReason candidate of
        None \<Rightarrow> False
      | Some r \<Rightarrow> r \<noteq> [] \<and> r \<in> set badFinishReasons)"

fun getFunctionCalls :: "Part list \<Rightarrow> FunctionCall list" where
  "getFunctionCalls [] = []"
| "getFunctionCalls (FunctionCallPart name args # parts) =
     \<lparr>fc_name = name, fc_args = args\<rparr> # getFunctionCalls parts"
| "getFunctionCalls (part # parts) = getFunctionCalls parts"

fun getText :: "Part list \<Rightarrow> string" where
  "getText [] = []"
| "getText (TextPart t # parts) = t @ getText parts"
| "getText (part # parts) = getText parts"

definition functionCalls :: "GoogleResponse \<Rightarrow> error + FunctionCall list option" where
  "functionCalls response =
     (case candidates response of
        Some (c # cs) \<Rightarrow>
          if hadBadFinishReason c then Inl ResponseError
          else Inr (if getFunctionCalls (cand_parts c) \<noteq> []
                    then Some (getFunctionCalls (cand_parts c)) else None)
      | _ \<Rightarrow> if promptFeedback response \<noteq> None then Inl ResponseError else Inr None)"

definition gr_text :: "GoogleResponse \<Rightarrow> error + string" where
  "gr_text response =
     (case candidates response of
        Some (c # cs) \<Rightarrow>
          if hadBadFinishReason c then Inl ResponseError
          else Inr (getText (cand_parts c))
      | _ \<Rightarrow> if promptFeedback response \<noteq> None then Inl ResponseError else Inr [])"

text \<open>\<open>toolCalls?.length\<close>: the calls an accessor returned, none when it returned
  \<open>undefined\<close>.\<close>

definition pendingCalls :: "FunctionCall list option \<Rightarrow> FunctionCall list" where
  "pendingCalls toolCalls = (case toolCalls of None \<Rightarrow> [] | Some cs \<Rightarrow> cs)"

definition usageOf :: "UsageMetadata \<Rightarrow> LlmUsage" where
  "usageOf um = \<lparr>prompt_tokens = promptTokenCount um,
     completion_tokens = candidatesTokenCount um, total_tokens = None,
     prompt_tokens_details = None, completion_tokens_details = None\<rparr>"

subsection \<open>The non-streaming turn\<close>

text \<open>The loop over the tool calls of one hop: each tool is invoked in turn; its result
  is a function response for the backend and a tool call record for the caller.\<close>

fun google_callTools ::
  "'w Engine \<Rightarrow> FunctionCall list \<Rightarrow> 'w \<Rightarrow> Part list \<times> LlmToolCallInfo list \<times> 'w" where
  "google_callTools E [] w = ([], [], w)"
| "google_callTools E (toolCall # rest) w =
     (case callTool E (fc_name toolCall) (fc_args toolCall) w of
        (result, w1) \<Rightarrow>
          (case google_callTools E rest w1 of
             (results, toolCallInfo, w2) \<Rightarrow>
               (FunctionResponsePart (fc_name toolCall) result # results,
                \<lparr>tci_name = fc_name toolCall, tci_params = fc_args toolCall,
                  tci_result = result\<rparr> # toolCallInfo,
                w2)))"

text \<open>\<open>cumulate usage\<close>: this hop's counters are added to the completion's, when usage
  is tracked, this hop reported usage and the completion carries a usage.\<close>

definition google_cumulate ::
  "LlmCompletionOpts \<Rightarrow> GoogleResponse \<Rightarrow> LlmResponse \<Rightarrow> LlmResponse" where
  "google_cumulate opts response completion =
     (case (usageMetadata response, r_usage completion) of
        (Some um, Some u) \<Rightarrow>
          if usage opts = Some True
          then completion\<lparr>r_usage := Some (u\<lparr>
                 prompt_tokens := jsadd (prompt_tokens u) (promptTokenCount um),
                 completion_tokens := jsadd (completion_tokens u) (candidatesTokenCount um)\<rparr>)\<rparr>
          else completion
      | _ \<Rightarrow> completion)"

text \<open>
  \<open>chat\<close> calls itself after every hop with tool calls and nothing bounds the number
  of hops, so the function takes fuel: \<open>None\<close> is a turn that has not ended within the
  given number of hops. The thread holds \<open>Content\<close> values, which have no
  \<open>contentForModel\<close>: the instructions passed to \<open>getModel\<close> are \<open>undefined\<close>, and
  reading \<open>thread[0]\<close> of an empty thread throws. An accessor of the response that
  throws ends the turn with its error.
\<close>

fun google_chat ::
  "nat \<Rightarrow> 'w Engine \<Rightarrow> (GoogleRequest \<Rightarrow> GoogleResponse) \<Rightarrow> string \<Rightarrow> Content list
     \<Rightarrow> LlmCompletionOpts \<Rightarrow> 'w \<Rightarrow> (LlmResponse, 'w) outcome option" where
  "google_chat 0 E backend modelName thread opts w = None"
| "google_chat (Suc n) E backend modelName thread opts w =
     (if thread = [] then Some (Threw TypeError w)
      else
        let model = getModel E modelName None opts;
            response = backend \<lparr>rq_model = model, rq_contents = thread,
              rq_generationConfig = getGenerationConfig opts\<rparr>
        in case functionCalls response of
             Inl e \<Rightarrow> Some (Threw e w)
           | Inr toolCalls \<Rightarrow>
               if pendingCalls toolCalls \<noteq> [] then
                 (case google_callTools E (pendingCalls toolCalls) w of
                    (results, toolCallInfo, w1) \<Rightarrow>
                      (case candidates response of
                         None \<Rightarrow> Some (Threw TypeError w1)
                       | Some [] \<Rightarrow> Some (Threw TypeError w1)
                       | Some (c # cs) \<Rightarrow>
                           (case google_chat n E backend modelName
                                   (thread @ [\<lparr>c_role = ''assistant'', c_parts = cand_parts c\<rparr>,
                                              \<lparr>c_role = ''tool'', c_parts = results\<rparr>]) opts w1 of
                              None \<Rightarrow> None
                            | Some (Threw e w2) \<Rightarrow> Some (Threw e w2)
                            | Some (Returned completion w2) \<Rightarrow>
                                Some (Returned
                                  (google_cumulate opts response
                                     (completion\<lparr>r_toolCalls :=
                                        toolCallInfo @ r_toolCalls completion\<rparr>))
                                  w2))))
               else
                 (case gr_text response of
                    Inl e \<Rightarrow> Some (Threw e w)
                  | Inr t \<Rightarrow> Some (Returned
                      \<lparr>r_type = ''text'', r_content = t, r_toolCalls = [],
                       r_usage = (if usage opts = Some True
                                  then map_option usageOf (usageMetadata response)
                                  else None)\<rparr> w)))"

definition google_complete ::
  "nat \<Rightarrow> 'w Engine \<Rightarrow> (GoogleRequest \<Rightarrow> GoogleResponse) \<Rightarrow> string \<Rightarrow> Message list
     \<Rightarrow> LlmCompletionOpts \<Rightarrow> 'w \<Rightarrow> (LlmResponse, 'w) outcome option" where
  "google_complete n E backend model thread opts w =
     google_chat n E backend model (threadToHistory E thread model opts) opts w"

subsection \<open>The streaming turn\<close>

record GoogleStreamingContext =
  g_model :: ModelParams
  g_content :: "Content list"
  g_opts :: LlmCompletionOpts
  g_toolCalls :: "string LlmToolCall list"

text \<open>\<open>doStream\<close>: resets the in-flight tool calls and issues the request; the stream
  it returns is identified by that request.\<close>

definition google_doStream ::
  "GoogleStreamingContext \<Rightarrow> GoogleRequest \<times> GoogleStreamingContext" where
  "google_doStream context0 =
     (let context1 = context0\<lparr>g_toolCalls := []\<rparr>
      in (\<lparr>rq_model = g_model context1, rq_contents = g_content context1,
           rq_generationConfig = getGenerationConfig (g_opts context1)\<rparr>, context1))"

definition google_stream ::
  "'w Engine \<Rightarrow> string \<Rightarrow> Message list \<Rightarrow> LlmCompletionOpts
     \<Rightarrow> error + (GoogleRequest \<times> GoogleStreamingContext)" where
  "google_stream E modelName0 thread opts =
     (let modelName = selectModel E modelName0 thread opts
      in case thread of
           [] \<Rightarrow> Inl TypeError
         | m # ms \<Rightarrow> Inr (google_doStream
             \<lparr>g_model = getModel E modelName (Some (contentForModel m)) opts,
              g_content = threadToHistory E thread modelName opts,
              g_opts = opts, g_toolCalls = []\<rparr>))"

text \<open>The records saved from the function calls of a chunk: the id of a record is the
  name of the function.\<close>

definition google_saveToolCalls ::
  "'w Engine \<Rightarrow> FunctionCall list \<Rightarrow> string LlmToolCall list" where
  "google_saveToolCalls E toolCalls =
     map (\<lambda>tc. \<lparr>tc_id = fc_name tc, tc_message = [], tc_function = fc_name tc,
                 tc_args = JSON_stringify E (fc_args tc)\<rparr>) toolCalls"

text \<open>The loop over the saved records: a preparation notice, the arguments parsed (a
  parse failure throws out of the generator), a running notice, the tool invoked, its
  result kept for the backend, and a closing notice with the call.\<close>

fun google_runTools ::
  "'w Engine \<Rightarrow> string LlmToolCall list \<Rightarrow> 'w
     \<Rightarrow> GoogleRequest LlmChunk list \<times> Part list \<times> 'w \<times> error option" where
  "google_runTools E [] w = ([], [], w, None)"
| "google_runTools E (toolCall # rest) w =
     (let notify = ToolChunk (tc_function toolCall)
            (Some (getToolPreparationDescription E (tc_function toolCall))) False None
      in case JSON_parse E (tc_args toolCall) of
           None \<Rightarrow> ([notify], [], w, Some SyntaxError)
         | Some args \<Rightarrow>
             (case callTool E (tc_function toolCall) args w of
                (result, w1) \<Rightarrow>
                  (case google_runTools E rest w1 of
                     (evs, results, w2, err) \<Rightarrow>
                       ([notify,
                         ToolChunk (tc_function toolCall)
                           (Some (getToolRunningDescription E (tc_function toolCall) args))
                           False None,
                         ToolChunk (tc_function toolCall) None True (Some (args, result))] @ evs,
                        FunctionResponsePart (tc_function toolCall) result # results,
                        w2, err))))"

text \<open>\<open>!!chunk.candidates?.[0].finishReason\<close>: no finish when there are no candidates,
  a thrown error when the candidate list is empty, otherwise whether the first
  candidate carries a non-empty finish reason.\<close>

definition google_done :: "GoogleResponse \<Rightarrow> error + bool" where
  "google_done chunk =
     (case candidates chunk of
        None \<Rightarrow> Inr False
      | Some [] \<Rightarrow> Inl TypeError
      | Some (c # cs) \<Rightarrow> Inr (case finishReason c of None \<Rightarrow> False | Some r \<Rightarrow> r \<noteq> []))"

text \<open>\<open>nativeChunkToLlmChunk\<close>: a chunk with function calls runs the tools and switches
  to a new stream; any other chunk gives a content event, whose text is read after the
  finish flag, and a usage event when the chunk finishes the answer. An accessor that
  throws ends the translation before anything is yielded.\<close>

definition google_nativeChunkToLlmChunk ::
  "'w Engine \<Rightarrow> GoogleResponse \<Rightarrow> GoogleStreamingContext \<Rightarrow> 'w
     \<Rightarrow> (GoogleRequest, GoogleStreamingContext, 'w) translation" where
  "google_nativeChunkToLlmChunk E chunk context0 w =
     (case functionCalls chunk of
        Inl e \<Rightarrow> \<lparr>events = [], ctx = context0, world = w, thrown = Some e\<rparr>
      | Inr toolCalls \<Rightarrow>
          if pendingCalls toolCalls \<noteq> [] then
            (let context1 =
                   context0\<lparr>g_toolCalls := google_saveToolCalls E (pendingCalls toolCalls)\<rparr>
             in case google_runTools E (g_toolCalls context1) w of
                  (evs, results, w1, Some e) \<Rightarrow>
                    \<lparr>events = evs, ctx = context1, world = w1, thrown = Some e\<rparr>
                | (evs, results, w1, None) \<Rightarrow>
                    (case candidates chunk of
                       None \<Rightarrow>
                         \<lparr>events = evs, ctx = context1, world = w1, thrown = Some TypeError\<rparr>
                     | Some [] \<Rightarrow>
                         \<lparr>events = evs, ctx = context1, world = w1, thrown = Some TypeError\<rparr>
                     | Some (c # cs) \<Rightarrow>
                         (case google_doStream (context1\<lparr>g_content := g_content context1 @
                                   [\<lparr>c_role = ''assistant'', c_parts = cand_parts c\<rparr>,
                                    \<lparr>c_role = ''tool'', c_parts = results\<rparr>]\<rparr>) of
                            (stream, context2) \<Rightarrow>
                              \<lparr>events = evs @ [StreamChunk stream], ctx = context2,
                               world = w1, thrown = None\<rparr>)))
          else
            (case google_done chunk of
               Inl e \<Rightarrow> \<lparr>events = [], ctx = context0, world = w, thrown = Some e\<rparr>
             | Inr finished \<Rightarrow>
                 (case gr_text chunk of
                    Inl e \<Rightarrow> \<lparr>events = [], ctx = context0, world = w, thrown = Some e\<rparr>
                  | Inr t \<Rightarrow>
                      \<lparr>events = ContentChunk t finished #
                         (case usageMetadata chunk of
                            Some um \<Rightarrow>
                              if finished \<and> usage (g_opts context0) = Some True
                              then [UsageChunk (usageOf um)] else []
                          | None \<Rightarrow> []),
                       ctx = context0, world = w, thrown = None\<rparr>)))"

section \<open>The OpenAI adapter and its OpenRouter subclass\<close>

subsection \<open>Capabilities\<close>

definition modelAcceptsSystemRole :: "string \<Rightarrow> bool" where
  "modelAcceptsSystemRole model = (\<not> startsWith model ''o1'')"

definition modelIsReasoning :: "string \<Rightarrow> bool" where
  "modelIsReasoning model = startsWith model ''o''"

definition modelSupportsMaxTokens :: "string \<Rightarrow> bool" where
  "modelSupportsMaxTokens model = True"

definition modelSupportsTemperature :: "string \<Rightarrow> bool" where
  "modelSupportsTemperature model = (\<not> modelIsReasoning model)"

definition modelSupportsTopP :: "string \<Rightarrow> bool" where
  "modelSupportsTopP model = (\<not> modelIsReasoning model)"

definition modelSupportsTopK :: "string \<Rightarrow> bool" where
  "modelSupportsTopK model = (\<not> modelIsReasoning model)"

definition modelSupportsReasoningEffort :: "string \<Rightarrow> bool" where
  "modelSupportsReasoningEffort model = modelIsReasoning model"

definition systemRole :: string where
  "systemRole = ''system''"

text \<open>\<open>modelSupportsTools\<close> is the one method the OpenRouter subclass overrides with a
  different result; the adapter in use selects it.\<close>

datatype adapter = OpenAI | OpenRouter

fun modelSupportsTools :: "adapter \<Rightarrow> string \<Rightarrow> bool" where
  "modelSupportsTools OpenAI model =
     (\<not> startsWith model ''o1-'' \<and> \<not> startsWith model ''chatgpt-'')"
| "modelSupportsTools OpenRouter model = True"

subsection \<open>Messages and requests\<close>

record ToolCallFunction =
  fn_name :: "string option"
  fn_arguments :: "string option"

record ToolCallDelta =
  d_index :: "nat option"
  d_id :: "string option"
  d_function :: "ToolCallFunction option"

record ToolCall =
  call_id :: string
  call_name :: string
  call_arguments :: string

record ChatCompletionMessage =
  cm_content :: "string option"
  cm_tool_calls :: "ToolCall list option"

text \<open>The thread is \<open>any[]\<close>: it holds the payload built from the caller's messages,
  the assistant messages of the backend, the assistant announcements of streamed tool
  calls (\<open>role: assistant\<close>, empty content, the call's deltas) and the tool results
  (\<open>role: tool\<close>, the call id, the tool's name, the serialized result).\<close>

datatype OpenAIMessage =
    PayloadMessage LLmCompletionPayload
  | ChoiceMessage ChatCompletionMessage
  | ToolCallMessage "ToolCallDelta list"
  | ToolMessage string string string

fun messageRole :: "OpenAIMessage \<Rightarrow> string" where
  "messageRole (PayloadMessage p) = role p"
| "messageRole (ChoiceMessage m) = ''assistant''"
| "messageRole (ToolCallMessage ds) = ''assistant''"
| "messageRole (ToolMessage i n c) = ''tool''"

text \<open>A request is an object built with spreads: a map from keys to values, where a
  later spread overrides an earlier key.\<close>

datatype reqval =
    RStr string
  | RNum jsnum
  | RBool bool
  | RMessages "OpenAIMessage list"
  | RTools "LlmTool list"
  | RJson json
  | RStreamOptions bool

type_synonym OpenAIRequest = "string \<rightharpoonup> reqval"

definition openai_buildPayload ::
  "'w Engine \<Rightarrow> string \<Rightarrow> Message list \<Rightarrow> LlmCompletionOpts \<Rightarrow> LLmCompletionPayload list" where
  "openai_buildPayload E model thread opts =
     (let payload = super_buildPayload E model thread opts
      in if \<not> modelAcceptsSystemRole model
         then filter (\<lambda>msg. role msg \<noteq> ''system'') payload
         else if systemRole \<noteq> ''system''
         then map (\<lambda>msg. if role msg = ''system'' then msg\<lparr>role := systemRole\<rparr> else msg) payload
         else payload)"

text \<open>\<open>supported && opts?.x ? { ... } : {}\<close>, for a numeric option.\<close>

definition spreadNum :: "bool \<Rightarrow> jsnum option \<Rightarrow> (jsnum \<Rightarrow> OpenAIRequest) \<Rightarrow> OpenAIRequest" where
  "spreadNum supported v obj =
     (case v of None \<Rightarrow> Map.empty
      | Some n \<Rightarrow> if supported \<and> truthy n then obj n else Map.empty)"

definition getCompletionOpts :: "string \<Rightarrow> LlmCompletionOpts \<Rightarrow> OpenAIRequest" where
  "getCompletionOpts model opts =
     spreadNum (modelSupportsMaxTokens model) (maxTokens opts)
        (\<lambda>n. [''max_completion_tokens'' \<mapsto> RNum n])
     ++ spreadNum (modelSupportsTemperature model) (temperature opts)
        (\<lambda>n. [''temperature'' \<mapsto> RNum n])
     ++ spreadNum (modelSupportsTopK model) (top_k opts)
        (\<lambda>n. [''logprobs'' \<mapsto> RBool True, ''top_logprobs'' \<mapsto> RNum n])
     ++ spreadNum (modelSupportsTopP model) (top_p opts)
        (\<lambda>n. [''top_p'' \<mapsto> RNum n])
     ++ (case reasoningEffort opts of None \<Rightarrow> Map.empty
         | Some e \<Rightarrow> if modelSupportsReasoningEffort model \<and> e \<noteq> []
                     then [''reasoning_effort'' \<mapsto> RStr e] else Map.empty)
     ++ (case customOpts opts of None \<Rightarrow> Map.empty
         | Some c \<Rightarrow> (\<lambda>k. map_option RJson (c k)))"

text \<open>\<open>getFunctionCallingOptions\<close>: no tools when the flag is \<open>false\<close> or \<open>top_k\<close> is
  not given, or the model does not support tools; otherwise the registered tools, if
  there are any.\<close>

definition getFunctionCallingOptions ::
  "adapter \<Rightarrow> 'w Engine \<Rightarrow> string \<Rightarrow> LlmCompletionOpts \<Rightarrow> OpenAIRequest" where
  "getFunctionCallingOptions A E model opts =
     (if (tools opts = Some False \<or> top_k opts = None) \<or> \<not> modelSupportsTools A model
      then Map.empty
      else let registered = getAvailableTools E
           in if length registered \<noteq> 0
              then [''tools'' \<mapsto> RTools registered, ''tool_choice'' \<mapsto> RStr ''auto'']
              else Map.empty)"

subsection \<open>The non-streaming turn\<close>

record Choice =
  ch_finish_reason :: "string option"
  ch_message :: ChatCompletionMessage

record ChatCompletion =
  co_choices :: "Choice list option"
  co_usage :: "LlmUsage option"

text \<open>\<open>response.choices?.[0]\<close>\<close>

definition firstChoice :: "ChatCompletion \<Rightarrow> Choice option" where
  "firstChoice response =
     (case co_choices response of None \<Rightarrow> None | Some [] \<Rightarrow> None | Some (c # cs) \<Rightarrow> Some c)"

text \<open>The loop over the tool calls of one hop: the arguments are parsed (a failure
  throws an error naming the tool and its arguments), the tool is invoked, its result is
  pushed to the thread as a tool message and kept as a tool call record.\<close>

fun openai_callTools ::
  "'w Engine \<Rightarrow> ToolCall list \<Rightarrow> 'w
     \<Rightarrow> OpenAIMessage list \<times> LlmToolCallInfo list \<times> 'w \<times> error option" where
  "openai_callTools E [] w = ([], [], w, None)"
| "openai_callTools E (toolCall # rest) w =
     (case JSON_parse E (call_arguments toolCall) of
        None \<Rightarrow> ([], [], w,
          Some (InvalidJsonArgs (call_name toolCall) (call_arguments toolCall)))
      | Some args \<Rightarrow>
          (case callTool E (call_name toolCall) args w of
             (result, w1) \<Rightarrow>
               (case openai_callTools E rest w1 of
                  (msgs, toolCallInfo, w2, err) \<Rightarrow>
                    (ToolMessage (call_id toolCall) (call_name toolCall)
                       (JSON_stringify E result) # msgs,
                     \<lparr>tci_name = call_name toolCall, tci_params = args,
                       tci_result = result\<rparr> # toolCallInfo,
                     w2, err))))"

text \<open>\<open>target! += v\<close> on an optional counter: \<open>undefined + v\<close> is \<open>NaN\<close>.\<close>

definition addTo :: "jsnum option \<Rightarrow> jsnum \<Rightarrow> jsnum option" where
  "addTo target v = Some (case target of None \<Rightarrow> NaN | Some t \<Rightarrow> jsadd t v)"

text \<open>\<open>if (reported) completion.usage.details!.field! += reported\<close>: nothing happens when
  the hop's counter is absent or falsy; otherwise the completion's details object must
  exist (reading a field of \<open>undefined\<close> throws).\<close>

definition addDetail ::
  "jsnum option \<Rightarrow> ('d \<Rightarrow> jsnum option) \<Rightarrow> ((jsnum option \<Rightarrow> jsnum option) \<Rightarrow> 'd \<Rightarrow> 'd)
     \<Rightarrow> 'd option \<Rightarrow> error + 'd option" where
  "addDetail reported field field_update target =
     (case whenTruthy reported of
        None \<Rightarrow> Inr target
      | Some v \<Rightarrow>
          (case target of
             None \<Rightarrow> Inl TypeError
           | Some d \<Rightarrow> Inr (Some (field_update (\<lambda>_. addTo (field d) v) d))))"

text \<open>\<open>details?.field\<close>\<close>

definition detail :: "'d option \<Rightarrow> ('d \<Rightarrow> jsnum option) \<Rightarrow> jsnum option" where
  "detail d field = (case d of None \<Rightarrow> None | Some x \<Rightarrow> field x)"

text \<open>\<open>cumulate usage\<close>, as the adapter writes it: the prompt tokens and the four detail
  counters of this hop are added to the completion's usage.\<close>

definition openai_cumulate ::
  "LlmCompletionOpts \<Rightarrow> ChatCompletion \<Rightarrow> LlmResponse \<Rightarrow> error + LlmResponse" where
  "openai_cumulate opts response completion =
     (case (co_usage response, r_usage completion) of
        (Some ru, Some cu) \<Rightarrow>
          if usage opts = Some True then
            (case addDetail (detail (prompt_tokens_details ru) cached_tokens)
                    cached_tokens cached_tokens_update (prompt_tokens_details cu) of
               Inl e \<Rightarrow> Inl e
             | Inr pd1 \<Rightarrow>
            (case addDetail (detail (prompt_tokens_details ru) p_audio_tokens)
                    p_audio_tokens p_audio_tokens_update pd1 of
               Inl e \<Rightarrow> Inl e
             | Inr pd2 \<Rightarrow>
            (case addDetail (detail (completion_tokens_details ru) reasoning_tokens)
                    reasoning_tokens reasoning_tokens_update (completion_tokens_details cu) of
               Inl e \<Rightarrow> Inl e
             | Inr cd1 \<Rightarrow>
            (case addDetail (detail (completion_tokens_details ru) c_audio_tokens)
                    c_audio_tokens c_audio_tokens_update cd1 of
               Inl e \<Rightarrow> Inl e
             | Inr cd2 \<Rightarrow>
                 Inr (completion\<lparr>r_usage := Some (cu\<lparr>
                   prompt_tokens := jsadd (prompt_tokens cu) (prompt_tokens ru),
                   prompt_tokens_details := pd2,
                   completion_tokens_details := cd2\<rparr>)\<rparr>)))))
          else Inr completion
      | _ \<Rightarrow> Inr completion)"

text \<open>\<open>total_tokens\<close> is deleted from the usage of the final response when truthy.\<close>

definition dropTotal :: "LlmUsage \<Rightarrow> LlmUsage" where
  "dropTotal u = (if whenTruthy (total_tokens u) \<noteq> None then u\<lparr>total_tokens := None\<rparr> else u)"

text \<open>\<open>chat\<close>, with fuel as for the other adapter: \<open>None\<close> is a turn that has not ended
  within the given number of hops.\<close>

fun openai_chat ::
  "nat \<Rightarrow> adapter \<Rightarrow> 'w Engine \<Rightarrow> (OpenAIRequest \<Rightarrow> ChatCompletion) \<Rightarrow> string
     \<Rightarrow> OpenAIMessage list \<Rightarrow> LlmCompletionOpts \<Rightarrow> 'w \<Rightarrow> (LlmResponse, 'w) outcome option" where
  "openai_chat 0 A E backend model thread opts w = None"
| "openai_chat (Suc n) A E backend model thread opts w =
     (let response = backend
            ([''model'' \<mapsto> RStr model, ''messages'' \<mapsto> RMessages thread]
             ++ getCompletionOpts model opts
             ++ getFunctionCallingOptions A E model opts);
          choice = firstChoice response
      in if (case choice of None \<Rightarrow> False | Some c \<Rightarrow> ch_finish_reason c = Some ''tool_calls'')
         then
           (case choice of
              None \<Rightarrow> Some (Threw TypeError w)
            | Some c \<Rightarrow>
                (case cm_tool_calls (ch_message c) of
                   None \<Rightarrow> Some (Threw TypeError w)
                 | Some toolCalls \<Rightarrow>
                     (case openai_callTools E toolCalls w of
                        (msgs, toolCallInfo, w1, Some e) \<Rightarrow> Some (Threw e w1)
                      | (msgs, toolCallInfo, w1, None) \<Rightarrow>
                          (case openai_chat n A E backend model
                                  (thread @ [ChoiceMessage (ch_message c)] @ msgs) opts w1 of
                             None \<Rightarrow> None
                           | Some (Threw e w2) \<Rightarrow> Some (Threw e w2)
                           | Some (Returned completion w2) \<Rightarrow>
                               (case openai_cumulate opts response
                                       (completion\<lparr>r_toolCalls :=
                                          toolCallInfo @ r_toolCalls completion\<rparr>) of
                                  Inl e \<Rightarrow> Some (Threw e w2)
                                | Inr completion1 \<Rightarrow> Some (Returned completion1 w2))))))
         else
           (case choice of
              None \<Rightarrow> Some (Threw TypeError w)
            | Some c \<Rightarrow> Some (Returned
                \<lparr>r_type = ''text'',
                 r_content = (case cm_content (ch_message c) of None \<Rightarrow> [] | Some t \<Rightarrow> t),
                 r_toolCalls = [],
                 r_usage = (if usage opts = Some True
                            then map_option dropTotal (co_usage response) else None)\<rparr> w)))"

subsection \<open>The streaming turn\<close>

record Delta =
  dl_content :: "string option"
  dl_reasoning_content :: "string option"
  dl_tool_calls :: "ToolCallDelta list option"

record ChunkChoice =
  cc_delta :: "Delta option"
  cc_finish_reason :: "string option"

record ChatCompletionChunk =
  ck_choices :: "ChunkChoice list"
  ck_usage :: "LlmUsage option"

record OpenAIStreamingContext =
  o_model :: string
  o_thread :: "OpenAIMessage list"
  o_opts :: LlmCompletionOpts
  o_toolCalls :: "ToolCallDelta list LlmToolCall list"
  o_done :: bool

text \<open>\<open>doStream\<close>: resets the in-flight tool calls and issues the streaming request; the
  stream it returns is identified by that request.\<close>

definition openai_doStream ::
  "adapter \<Rightarrow> 'w Engine \<Rightarrow> OpenAIStreamingContext \<Rightarrow> OpenAIRequest \<times> OpenAIStreamingContext" where
  "openai_doStream A E context0 =
     (let context1 = context0\<lparr>o_toolCalls := []\<rparr>
      in ([''model'' \<mapsto> RStr (o_model context1), ''messages'' \<mapsto> RMessages (o_thread context1)]
          ++ getCompletionOpts (o_model context1) (o_opts context1)
          ++ getFunctionCallingOptions A E (o_model context1) (o_opts context1)
          ++ [''stream_options'' \<mapsto> RStreamOptions (usage (o_opts context1) = Some True),
              ''stream'' \<mapsto> RBool True],
          context1))"

definition openai_stream ::
  "adapter \<Rightarrow> 'w Engine \<Rightarrow> string \<Rightarrow> Message list \<Rightarrow> LlmCompletionOpts
     \<Rightarrow> OpenAIRequest \<times> OpenAIStreamingContext" where
  "openai_stream A E model0 thread opts =
     (let model = selectModel E model0 thread opts
      in openai_doStream A E
           \<lparr>o_model = model,
            o_thread = map PayloadMessage (openai_buildPayload E model thread opts),
            o_opts = opts, o_toolCalls = [], o_done = False\<rparr>)"

text \<open>\<open>chunk.choices[0]?.delta?.tool_calls?.[0]\<close>\<close>

definition firstToolCall :: "ChatCompletionChunk \<Rightarrow> ToolCallDelta option" where
  "firstToolCall chunk =
     (case ck_choices chunk of
        [] \<Rightarrow> None
      | c # cs \<Rightarrow>
          (case cc_delta c of
             None \<Rightarrow> None
           | Some d \<Rightarrow>
               (case dl_tool_calls d of
                  None \<Rightarrow> None
                | Some [] \<Rightarrow> None
                | Some (t # ts) \<Rightarrow> Some t)))"

text \<open>\<open>chunk.choices[0]?.finish_reason || ''\<close>\<close>

definition finishOf :: "ChatCompletionChunk \<Rightarrow> string" where
  "finishOf chunk =
     (case ck_choices chunk of
        [] \<Rightarrow> []
      | c # cs \<Rightarrow> (case cc_finish_reason c of None \<Rightarrow> [] | Some r \<Rightarrow> r))"

text \<open>\<open>s += x\<close> on strings: an \<open>undefined\<close> operand is appended as the text
  \<open>undefined\<close>.\<close>

definition appendStr :: "string \<Rightarrow> string option \<Rightarrow> string" where
  "appendStr s x = s @ (case x of None \<Rightarrow> ''undefined'' | Some t \<Rightarrow> t)"

text \<open>\<open>existingToolCall.args += arguments\<close>, on the first record with the id.\<close>

fun appendExisting ::
  "string \<Rightarrow> string option \<Rightarrow> 'm LlmToolCall list \<Rightarrow> 'm LlmToolCall list" where
  "appendExisting i a [] = []"
| "appendExisting i a (t # ts) =
     (if tc_id t = i then t\<lparr>tc_args := appendStr (tc_args t) a\<rparr> # ts
      else t # appendExisting i a ts)"

text \<open>
  The first part of \<open>nativeChunkToLlmChunk\<close>: the tool call delta of the chunk, if it
  has a function, is folded into the in-flight records. With a non-empty id it extends
  the record with that id, or opens a new record (and a preparation notice is yielded);
  without an id it extends the last record and the arguments of the last delta of its
  message. Reading the last record of an empty list, or the function of a delta that
  has none, throws.
\<close>

definition openai_accumulate ::
  "'w Engine \<Rightarrow> ChatCompletionChunk \<Rightarrow> ToolCallDelta list LlmToolCall list
     \<Rightarrow> OpenAIRequest LlmChunk list \<times> ToolCallDelta list LlmToolCall list \<times> error option" where
  "openai_accumulate E chunk toolCalls =
     (case firstToolCall chunk of
        None \<Rightarrow> ([], toolCalls, None)
      | Some tool_call \<Rightarrow>
          (case d_function tool_call of
             None \<Rightarrow> ([], toolCalls, None)
           | Some fn \<Rightarrow>
               (case d_id tool_call of
                  Some (c # cs) \<Rightarrow>
                    (case find (\<lambda>tc. tc_id tc = c # cs) toolCalls of
                       Some existingToolCall \<Rightarrow>
                         ([], appendExisting (c # cs) (fn_arguments fn) toolCalls, None)
                     | None \<Rightarrow>
                         (let toolCall = \<lparr>tc_id = c # cs,
                                tc_message = map (\<lambda>tc. tc\<lparr>d_index := None\<rparr>)
                                  (case ck_choices chunk of
                                     ch # chs \<Rightarrow>
                                       (case cc_delta ch of
                                          Some d \<Rightarrow>
                                            (case dl_tool_calls d of Some tcs \<Rightarrow> tcs | None \<Rightarrow> [])
                                        | None \<Rightarrow> [])
                                   | [] \<Rightarrow> []),
                                tc_function = (case fn_name fn of None \<Rightarrow> [] | Some n \<Rightarrow> n),
                                tc_args = (case fn_arguments fn of None \<Rightarrow> [] | Some a \<Rightarrow> a)\<rparr>
                          in ([ToolChunk (tc_function toolCall)
                                 (Some (getToolPreparationDescription E (tc_function toolCall)))
                                 False None],
                              toolCalls @ [toolCall], None)))
                | _ \<Rightarrow>
                    (if toolCalls = [] then ([], toolCalls, Some TypeError)
                     else
                       let toolCall = last toolCalls;
                           toolCall1 = toolCall\<lparr>tc_args := appendStr (tc_args toolCall) (fn_arguments fn)\<rparr>
                       in if tc_message toolCall1 = []
                          then ([], butlast toolCalls @ [toolCall1], Some TypeError)
                          else
                            (case d_function (last (tc_message toolCall1)) of
                               None \<Rightarrow> ([], butlast toolCalls @ [toolCall1], Some TypeError)
                             | Some f \<Rightarrow>
                                 ([], butlast toolCalls @
                                    [toolCall1\<lparr>tc_message := butlast (tc_message toolCall1) @
                                       [(last (tc_message toolCall1))\<lparr>d_function :=
                                          Some (f\<lparr>fn_arguments := Some (tc_args toolCall1)\<rparr>)\<rparr>]\<rparr>],
                                  None))))))"

text \<open>The loop over the in-flight records once the backend has finished the call set:
  the arguments are parsed (a failure throws an error naming the tool and its
  arguments), a running notice, the tool invoked, the assistant announcement and the
  tool result pushed to the thread, and a closing notice with the call.\<close>

fun openai_runTools ::
  "'w Engine \<Rightarrow> ToolCallDelta list LlmToolCall list \<Rightarrow> 'w
     \<Rightarrow> OpenAIRequest LlmChunk list \<times> OpenAIMessage list \<times> 'w \<times> error option" where
  "openai_runTools E [] w = ([], [], w, None)"
| "openai_runTools E (toolCall # rest) w =
     (case JSON_parse E (tc_args toolCall) of
        None \<Rightarrow> ([], [], w,
          Some (InvalidJsonArgs (tc_function toolCall) (tc_args toolCall)))
      | Some args \<Rightarrow>
          (case callTool E (tc_function toolCall) args w of
             (result, w1) \<Rightarrow>
               (case openai_runTools E rest w1 of
                  (evs, msgs, w2, err) \<Rightarrow>
                    ([ToolChunk (tc_function toolCall)
                        (Some (getToolRunningDescription E (tc_function toolCall) args))
                        False None,
                      ToolChunk (tc_function toolCall) None True (Some (args, result))] @ evs,
                     [ToolCallMessage (tc_message toolCall),
                      ToolMessage (tc_id toolCall) (tc_function toolCall)
                        (JSON_stringify E result)] @ msgs,
                     w2, err))))"

text \<open>\<open>done\<close>: the finish reason of the chunk is one that ends the answer.\<close>

definition openai_done :: "ChatCompletionChunk \<Rightarrow> bool" where
  "openai_done chunk =
     (finishOf chunk \<in> set [''stop'', ''length'', ''content_filter'', ''eos''])"

text \<open>The last part of \<open>nativeChunkToLlmChunk\<close>, for a chunk that does not run tools:
  the completion flag, then the reasoning, content and usage events.\<close>

definition openai_textEvents ::
  "ChatCompletionChunk \<Rightarrow> OpenAIStreamingContext
     \<Rightarrow> OpenAIRequest LlmChunk list \<times> OpenAIStreamingContext" where
  "openai_textEvents chunk context0 =
     (let finished = openai_done chunk;
          context1 = (if finished then context0\<lparr>o_done := True\<rparr> else context0);
          delta = (case ck_choices chunk of [] \<Rightarrow> None | c # cs \<Rightarrow> cc_delta c);
          reasoning = (case delta of None \<Rightarrow> None | Some d \<Rightarrow> dl_reasoning_content d);
          text = (case delta of None \<Rightarrow> None | Some d \<Rightarrow> dl_content d)
      in ((if length (ck_choices chunk) \<noteq> 0 \<and> reasoning \<noteq> None \<and> reasoning \<noteq> Some []
           then [ReasoningChunk (case reasoning of None \<Rightarrow> [] | Some t \<Rightarrow> t) finished] else [])
          @ (if length (ck_choices chunk) \<noteq> 0 \<and> ((text \<noteq> None \<and> text \<noteq> Some []) \<or> finished)
             then [ContentChunk (case text of None \<Rightarrow> [] | Some t \<Rightarrow> t) finished] else [])
          @ (case ck_usage chunk of
               None \<Rightarrow> []
             | Some u \<Rightarrow>
                 if usage (o_opts context1) = Some True \<and> o_done context1
                 then [UsageChunk u] else []),
          context1))"

definition openai_nativeChunkToLlmChunk ::
  "adapter \<Rightarrow> 'w Engine \<Rightarrow> ChatCompletionChunk \<Rightarrow> OpenAIStreamingContext \<Rightarrow> 'w
     \<Rightarrow> (OpenAIRequest, OpenAIStreamingContext, 'w) translation" where
  "openai_nativeChunkToLlmChunk A E chunk context0 w =
     (case openai_accumulate E chunk (o_toolCalls context0) of
        (evs0, toolCalls, Some e) \<Rightarrow>
          \<lparr>events = evs0, ctx = context0\<lparr>o_toolCalls := toolCalls\<rparr>, world = w, thrown = Some e\<rparr>
      | (evs0, toolCalls, None) \<Rightarrow>
          (let context1 = context0\<lparr>o_toolCalls := toolCalls\<rparr>
           in if finishOf chunk \<in> set [''tool_calls'', ''function_call'', ''stop'']
                 \<and> length (o_toolCalls context1) \<noteq> 0
              then
                (case openai_runTools E (o_toolCalls context1) w of
                   (evs, msgs, w1, Some e) \<Rightarrow>
                     \<lparr>events = evs0 @ evs,
                      ctx = context1\<lparr>o_thread := o_thread context1 @ msgs\<rparr>,
                      world = w1, thrown = Some e\<rparr>
                 | (evs, msgs, w1, None) \<Rightarrow>
                     (case openai_doStream A E
                             (context1\<lparr>o_thread := o_thread context1 @ msgs\<rparr>) of
                        (stream, context2) \<Rightarrow>
                          \<lparr>events = evs0 @ evs @ [StreamChunk stream], ctx = context2,
                           world = w1, thrown = None\<rparr>))
              else
                (case openai_textEvents chunk context1 of
                   (evs, context2) \<Rightarrow>
                     \<lparr>events = evs0 @ evs, ctx = context2, world = w, thrown = None\<rparr>)))"

section \<open>Reading requests and running tools\<close>

text \<open>The value the opaque custom options pass through for a key of the request.\<close>

definition customValue :: "LlmCompletionOpts \<Rightarrow> string \<Rightarrow> reqval option" where
  "customValue opts k =
     (case customOpts opts of None \<Rightarrow> None | Some c \<Rightarrow> map_option RJson (c k))"

text \<open>The tools of one hop run one at a time, in the order given: the results and the
  registry they leave behind.\<close>

fun invokeAll :: "'w Engine \<Rightarrow> (string \<times> json) list \<Rightarrow> 'w \<Rightarrow> json list \<times> 'w" where
  "invokeAll E [] w = ([], w)"
| "invokeAll E ((name, args) # rest) w =
     (case callTool E name args w of
        (result, w1) \<Rightarrow>
          (case invokeAll E rest w1 of
             (results, w2) \<Rightarrow> (result # results, w2)))"

text \<open>The calls of the in-flight records, with their arguments parsed: \<open>None\<close> when the
  arguments of one of them do not parse.\<close>

definition parsedCalls ::
  "'w Engine \<Rightarrow> 'm LlmToolCall list \<Rightarrow> (string \<times> json) list option" where
  "parsedCalls E toolCalls =
     those (map (\<lambda>tc. map_option (Pair (tc_function tc)) (JSON_parse E (tc_args tc))) toolCalls)"

text \<open>The calls a sequence of events reports as finished, with their parameters and
  results, in the order of the events.\<close>

fun toolResults :: "'s LlmChunk list \<Rightarrow> (string \<times> json \<times> json) list" where
  "toolResults [] = []"
| "toolResults (ToolChunk name status True (Some (params, result)) # es) =
     (name, params, result) # toolResults es"
| "toolResults (e # es) = toolResults es"

fun isStream :: "'s LlmChunk \<Rightarrow> bool" where
  "isStream (StreamChunk s) = True"
| "isStream _ = False"

text \<open>\<open>tool_call?.function\<close>: the chunk carries a tool call delta with a function.\<close>

definition carriesToolCall :: "ChatCompletionChunk \<Rightarrow> bool" where
  "carriesToolCall chunk =
     (case firstToolCall chunk of None \<Rightarrow> False | Some t \<Rightarrow> d_function t \<noteq> None)"

section \<open>The turn as the specification words it\<close>

text \<open>
  The tool loop of the specification, for comparison with the recursive \<open>chat\<close> of the
  adapters: an explicit loop with a hop counter and an accumulator, in which every hop
  appends its tool call records behind those of the hops before it, and the hop without
  tool calls returns the accumulator. \<open>None\<close> is a turn that returns no result (it
  threw, or did not end within the given number of hops).
\<close>

fun google_toolLoop_spec ::
  "nat \<Rightarrow> 'w Engine \<Rightarrow> (GoogleRequest \<Rightarrow> GoogleResponse) \<Rightarrow> string \<Rightarrow> Content list
     \<Rightarrow> LlmCompletionOpts \<Rightarrow> 'w \<Rightarrow> LlmToolCallInfo list \<Rightarrow> LlmToolCallInfo list option" where
  "google_toolLoop_spec 0 E backend modelName thread opts w acc = None"
| "google_toolLoop_spec (Suc n) E backend modelName thread opts w acc =
     (if thread = [] then None
      else
        let response = backend \<lparr>rq_model = getModel E modelName None opts,
              rq_contents = thread, rq_generationConfig = getGenerationConfig opts\<rparr>
        in case functionCalls response of
             Inl e \<Rightarrow> None
           | Inr toolCalls \<Rightarrow>
               if pendingCalls toolCalls \<noteq> [] then
                 (case google_callTools E (pendingCalls toolCalls) w of
                    (results, toolCallInfo, w1) \<Rightarrow>
                      (case candidates response of
                         Some (c # cs) \<Rightarrow>
                           google_toolLoop_spec n E backend modelName
                             (thread @ [\<lparr>c_role = ''assistant'', c_parts = cand_parts c\<rparr>,
                                        \<lparr>c_role = ''tool'', c_parts = results\<rparr>])
                             opts w1 (acc @ toolCallInfo)
                       | _ \<Rightarrow> None))
               else Some acc)"

fun openai_toolLoop_spec ::
  "nat \<Rightarrow> adapter \<Rightarrow> 'w Engine \<Rightarrow> (OpenAIRequest \<Rightarrow> ChatCompletion) \<Rightarrow> string
     \<Rightarrow> OpenAIMessage list \<Rightarrow> LlmCompletionOpts \<Rightarrow> 'w \<Rightarrow> LlmToolCallInfo list
     \<Rightarrow> LlmToolCallInfo list option" where
  "openai_toolLoop_spec 0 A E backend model thread opts w acc = None"
| "openai_toolLoop_spec (Suc n) A E backend model thread opts w acc =
     (let response = backend
            ([''model'' \<mapsto> RStr model, ''messages'' \<mapsto> RMessages thread]
             ++ getCompletionOpts model opts
             ++ getFunctionCallingOptions A E model opts)
      in case firstChoice response of
           None \<Rightarrow> None
         | Some c \<Rightarrow>
             if ch_finish_reason c = Some ''tool_calls'' then
               (case cm_tool_calls (ch_message c) of
                  None \<Rightarrow> None
                | Some toolCalls \<Rightarrow>
                    (case openai_callTools E toolCalls w of
                       (msgs, toolCallInfo, w1, None) \<Rightarrow>
                         openai_toolLoop_spec n A E backend model
                           (thread @ [ChoiceMessage (ch_message c)] @ msgs) opts w1
                           (acc @ toolCallInfo)
                     | (msgs, toolCallInfo, w1, Some e) \<Rightarrow> None))
             else Some acc)"

text \<open>
  Modelled from the spec: the loop that drains a backend stream belongs to the base
  engine, which is not among the sources. The specification has it translate each
  native chunk in turn and hand the events on in order; an error thrown by a
  translation ends it. These two functions are that loop over the chunks of a stream,
  one for each adapter's \<open>nativeChunkToLlmChunk\<close>.
\<close>

fun google_translateAll ::
  "'w Engine \<Rightarrow> GoogleResponse list \<Rightarrow> GoogleStreamingContext \<Rightarrow> 'w
     \<Rightarrow> (GoogleRequest, GoogleStreamingContext, 'w) translation" where
  "google_translateAll E [] c w = \<lparr>events = [], ctx = c, world = w, thrown = None\<rparr>"
| "google_translateAll E (chunk # rest) c w =
     (let t = google_nativeChunkToLlmChunk E chunk c w
      in if thrown t \<noteq> None then t
         else
           let t1 = google_translateAll E rest (ctx t) (world t)
           in t1\<lparr>events := events t @ events t1\<rparr>)"

fun openai_translateAll ::
  "adapter \<Rightarrow> 'w Engine \<Rightarrow> ChatCompletionChunk list \<Rightarrow> OpenAIStreamingContext \<Rightarrow> 'w
     \<Rightarrow> (OpenAIRequest, OpenAIStreamingContext, 'w) translation" where
  "openai_translateAll A E [] c w = \<lparr>events = [], ctx = c, world = w, thrown = None\<rparr>"
| "openai_translateAll A E (chunk # rest) c w =
     (let t = openai_nativeChunkToLlmChunk A E chunk c w
      in if thrown t \<noteq> None then t
         else
           let t1 = openai_translateAll A E rest (ctx t) (world t)
           in t1\<lparr>events := events t @ events t1\<rparr>)"

section \<open>Sample inputs\<close>

text \<open>A registry with one tool whose state is the log of its invocations, a parser that
  accepts the empty object only, and a base payload builder that copies each message.\<close>

definition weatherTool :: LlmTool where
  "weatherTool = \<lparr>t_name = ''get_weather'', t_description = ''the weather in a city'',
     t_parameters = None\<rparr>"

definition sampleEngine :: "(string \<times> json) list Engine" where
  "sampleEngine = \<lparr>getAvailableTools = [weatherTool],
     callTool = (\<lambda>name args log. (JStr ''sunny'', log @ [(name, args)])),
     getToolPreparationDescription = (\<lambda>name. ''preparing''),
     getToolRunningDescription = (\<lambda>name args. ''running''),
     super_buildPayload = (\<lambda>model thread opts.
        map (\<lambda>m. \<lparr>role = msg_role m, content = contentForModel m, images = []\<rparr>) thread),
     selectModel = (\<lambda>model thread opts. model),
     JSON_parse = (\<lambda>s. if s = ''{}'' then Some (JObj []) else None),
     JSON_stringify = (\<lambda>j. ''{}'')\<rparr>"

definition sampleThread :: "Message list" where
  "sampleThread =
     [\<lparr>msg_role = ''system'', msg_content = ''be terse'', contentForModel = ''be terse'',
       attachment = None\<rparr>,
      \<lparr>msg_role = ''user'', msg_content = ''2+2?'', contentForModel = ''2+2?'',
       attachment = None\<rparr>]"

text \<open>The thread of scenario B and a backend for it: the first answer asks for the
  weather tool, the second for the clock, the third is the final text; every answer
  reports usage. There is one such backend for each adapter.\<close>

definition weatherThread :: "LLmCompletionPayload list" where
  "weatherThread = [\<lparr>role = ''user'', content = ''weather in Lyon?'', images = []\<rparr>]"

definition weatherCall :: FunctionCall where
  "weatherCall = \<lparr>fc_name = ''get_weather'', fc_args = JObj [(''city'', JStr ''Lyon'')]\<rparr>"

definition clockCall :: FunctionCall where
  "clockCall = \<lparr>fc_name = ''get_time'', fc_args = JObj []\<rparr>"

definition google_sampleBackend :: "GoogleRequest \<Rightarrow> GoogleResponse" where
  "google_sampleBackend req =
     (if length (rq_contents req) = 1
      then \<lparr>candidates = Some [\<lparr>cand_parts =
                 [FunctionCallPart (fc_name weatherCall) (fc_args weatherCall)],
               finishReason = Some ''STOP''\<rparr>],
             promptFeedback = None,
             usageMetadata = Some \<lparr>promptTokenCount = Num 10, candidatesTokenCount = Num 5\<rparr>\<rparr>
      else if length (rq_contents req) = 3
      then \<lparr>candidates = Some [\<lparr>cand_parts =
                 [FunctionCallPart (fc_name clockCall) (fc_args clockCall)],
               finishReason = Some ''STOP''\<rparr>],
             promptFeedback = None,
             usageMetadata = Some \<lparr>promptTokenCount = Num 12, candidatesTokenCount = Num 6\<rparr>\<rparr>
      else \<lparr>candidates = Some [\<lparr>cand_parts = [TextPart ''sunny in Lyon''],
               finishReason = Some ''STOP''\<rparr>],
             promptFeedback = None,
             usageMetadata = Some \<lparr>promptTokenCount = Num 20, candidatesTokenCount = Num 7\<rparr>\<rparr>)"

definition openai_toolAnswer ::
  "string \<Rightarrow> string \<Rightarrow> string \<Rightarrow> real \<Rightarrow> real \<Rightarrow> ChatCompletion" where
  "openai_toolAnswer i name a p c =
     \<lparr>co_choices = Some [\<lparr>ch_finish_reason = Some ''tool_calls'',
        ch_message = \<lparr>cm_content = None,
          cm_tool_calls = Some [\<lparr>call_id = i, call_name = name, call_arguments = a\<rparr>]\<rparr>\<rparr>],
      co_usage = Some \<lparr>prompt_tokens = Num p, completion_tokens = Num c,
        total_tokens = Some (Num (p + c)), prompt_tokens_details = None,
        completion_tokens_details = None\<rparr>\<rparr>"

definition openai_sampleBackend :: "OpenAIRequest \<Rightarrow> ChatCompletion" where
  "openai_sampleBackend req =
     (case req ''messages'' of
        Some (RMessages [m]) \<Rightarrow> openai_toolAnswer ''call_1'' ''get_weather'' ''{}'' 10 5
      | Some (RMessages [m1, m2, m3]) \<Rightarrow> openai_toolAnswer ''call_2'' ''get_time'' ''{}'' 12 6
      | _ \<Rightarrow>
          \<lparr>co_choices = Some [\<lparr>ch_finish_reason = Some ''stop'',
             ch_message = \<lparr>cm_content = Some ''sunny in Lyon'', cm_tool_calls = None\<rparr>\<rparr>],
           co_usage = Some \<lparr>prompt_tokens = Num 20, completion_tokens = Num 7,
             total_tokens = Some (Num 27), prompt_tokens_details = None,
             completion_tokens_details = None\<rparr>\<rparr>)"

text \<open>Backends that answer by saying whether the request they received declares tools.\<close>

definition openai_toolsProbe :: "OpenAIRequest \<Rightarrow> ChatCompletion" where
  "openai_toolsProbe req =
     \<lparr>co_choices = Some [\<lparr>ch_finish_reason = Some ''stop'',
        ch_message = \<lparr>cm_content =
            Some (if req ''tools'' = None then ''no tools declared'' else ''tools declared''),
          cm_tool_calls = None\<rparr>\<rparr>],
      co_usage = None\<rparr>"

definition google_toolsProbe :: "GoogleRequest \<Rightarrow> GoogleResponse" where
  "google_toolsProbe req =
     \<lparr>candidates = Some [\<lparr>cand_parts =
          [TextPart (if mp_tools (rq_model req) = None
                     then ''no tools declared'' else ''tools declared'')],
        finishReason = Some ''STOP''\<rparr>],
      promptFeedback = None, usageMetadata = None\<rparr>"

text \<open>A backend whose answer asks for the weather tool with arguments that are not
  JSON.\<close>

definition openai_badBackend :: "OpenAIRequest \<Rightarrow> ChatCompletion" where
  "openai_badBackend req = openai_toolAnswer ''call_1'' ''get_weather'' ''{city:'' 10 5"

text \<open>Chunks of a streamed answer without tool calls, and fresh streaming contexts
  with usage tracking on.\<close>

definition google_textChunk ::
  "string \<Rightarrow> string option \<Rightarrow> UsageMetadata option \<Rightarrow> GoogleResponse" where
  "google_textChunk t f u =
     \<lparr>candidates = Some [\<lparr>cand_parts = [TextPart t], finishReason = f\<rparr>],
      promptFeedback = None, usageMetadata = u\<rparr>"

definition openai_textChunk ::
  "string \<Rightarrow> string option \<Rightarrow> LlmUsage option \<Rightarrow> ChatCompletionChunk" where
  "openai_textChunk t f u =
     \<lparr>ck_choices = [\<lparr>cc_delta = Some \<lparr>dl_content = Some t, dl_reasoning_content = None,
          dl_tool_calls = None\<rparr>, cc_finish_reason = f\<rparr>],
      ck_usage = u\<rparr>"

definition sampleUsage :: LlmUsage where
  "sampleUsage = \<lparr>prompt_tokens = Num 20, completion_tokens = Num 7, total_tokens = None,
     prompt_tokens_details = None, completion_tokens_details = None\<rparr>"

definition google_sampleContext :: GoogleStreamingContext where
  "google_sampleContext =
     \<lparr>g_model = getModel sampleEngine ''gemini-1.5-pro'' None (noOpts\<lparr>usage := Some True\<rparr>),
      g_content = map messageToContent weatherThread,
      g_opts = noOpts\<lparr>usage := Some True\<rparr>, g_toolCalls = []\<rparr>"

definition openai_sampleContext :: OpenAIStreamingContext where
  "openai_sampleContext =
     \<lparr>o_model = ''gpt-4o'', o_thread = map PayloadMessage weatherThread,
      o_opts = noOpts\<lparr>usage := Some True\<rparr>, o_toolCalls = [], o_done = False\<rparr>"

text \<open>A chunk of the Google backend that asks for the given calls, and the OpenAI
  records of a streamed call of the weather tool and of the clock, with the given id and
  arguments.\<close>

definition google_callChunk :: "FunctionCall list \<Rightarrow> GoogleResponse" where
  "google_callChunk calls =
     \<lparr>candidates = Some [\<lparr>cand_parts = map (\<lambda>c. FunctionCallPart (fc_name c) (fc_args c)) calls,
        finishReason = None\<rparr>],
      promptFeedback = None, usageMetadata = None\<rparr>"

definition openai_weatherRecord :: "string \<Rightarrow> string \<Rightarrow> ToolCallDelta list LlmToolCall" where
  "openai_weatherRecord i a =
     \<lparr>tc_id = i,
      tc_message = [\<lparr>d_index = None, d_id = Some i,
        d_function = Some \<lparr>fn_name = Some ''get_weather'', fn_arguments = Some a\<rparr>\<rparr>],
      tc_function = ''get_weather'', tc_args = a\<rparr>"


definition openai_callChunk ::
  "string option \<Rightarrow> string option \<Rightarrow> string \<Rightarrow> ChatCompletionChunk" where
  "openai_callChunk i name a =
     \<lparr>ck_choices = [\<lparr>cc_delta = Some \<lparr>dl_content = None, dl_reasoning_content = None,
          dl_tool_calls = Some [\<lparr>d_index = Some 0, d_id = i,
            d_function = Some \<lparr>fn_name = name, fn_arguments = Some a\<rparr>\<rparr>]\<rparr>,
        cc_finish_reason = None\<rparr>],
      ck_usage = None\<rparr>"

definition openai_finishChunk :: "string \<Rightarrow> ChatCompletionChunk" where
  "openai_finishChunk reason =
     \<lparr>ck_choices = [\<lparr>cc_delta = Some \<lparr>dl_content = None, dl_reasoning_content = None,
          dl_tool_calls = None\<rparr>, cc_finish_reason = Some reason\<rparr>],
      ck_usage = None\<rparr>"

text \<open>The chunk that ends a stream of the OpenAI backend when usage is asked for: no
  choices, only the usage. And two streams without tool calls: one of the OpenAI backend
  in which the finish chunk and the chunk after it both report usage, one of the Google
  backend whose answer is blocked at the end.\<close>

definition openai_usageTrailer :: "LlmUsage \<Rightarrow> ChatCompletionChunk" where
  "openai_usageTrailer u = \<lparr>ck_choices = [], ck_usage = Some u\<rparr>"

definition openai_usageTwiceStream :: "ChatCompletionChunk list" where
  "openai_usageTwiceStream =
     [openai_textChunk ''sunny'' None None,
      openai_textChunk [] (Some ''stop'') (Some sampleUsage),
      openai_usageTrailer sampleUsage]"

definition google_blockedStream :: "GoogleResponse list" where
  "google_blockedStream =
     [google_textChunk ''sunny'' None None, google_textChunk [] (Some ''SAFETY'') None]"

section \<open>Properties\<close>

subsection \<open>Keys of a request\<close>

lemma getFunctionCallingOptions_eq:
  "getFunctionCallingOptions A E model opts =
     (if tools opts \<noteq> Some False \<and> top_k opts \<noteq> None \<and> modelSupportsTools A model
         \<and> getAvailableTools E \<noteq> []
      then [''tools'' \<mapsto> RTools (getAvailableTools E), ''tool_choice'' \<mapsto> RStr ''auto'']
      else Map.empty)"
  by (simp add: getFunctionCallingOptions_def Let_def)

lemma spreadNum_other: "(\<And>n. obj n k = None) \<Longrightarrow> spreadNum s v obj k = None"
  by (simp add: spreadNum_def split: option.splits)

lemma map_add_None_right: "m2 k = None \<Longrightarrow> (m1 ++ m2) k = m1 k"
  by (simp add: map_add_def)

lemma getCompletionOpts_custom:
  "getCompletionOpts model opts k =
     (case customValue opts k of
        Some v \<Rightarrow> Some v
      | None \<Rightarrow>
         (spreadNum (modelSupportsMaxTokens model) (maxTokens opts)
            (\<lambda>n. [''max_completion_tokens'' \<mapsto> RNum n])
          ++ spreadNum (modelSupportsTemperature model) (temperature opts)
            (\<lambda>n. [''temperature'' \<mapsto> RNum n])
          ++ spreadNum (modelSupportsTopK model) (top_k opts)
            (\<lambda>n. [''logprobs'' \<mapsto> RBool True, ''top_logprobs'' \<mapsto> RNum n])
          ++ spreadNum (modelSupportsTopP model) (top_p opts)
            (\<lambda>n. [''top_p'' \<mapsto> RNum n])
          ++ (case reasoningEffort opts of None \<Rightarrow> Map.empty
              | Some e \<Rightarrow> if modelSupportsReasoningEffort model \<and> e \<noteq> []
                     then [''reasoning_effort'' \<mapsto> RStr e] else Map.empty)) k)"
  unfolding getCompletionOpts_def customValue_def
  by (cases "customOpts opts") (simp_all add: map_add_def split: option.splits)

lemma getCompletionOpts_other:
  assumes "k \<noteq> ''max_completion_tokens''" "k \<noteq> ''temperature''" "k \<noteq> ''logprobs''"
    "k \<noteq> ''top_logprobs''" "k \<noteq> ''top_p''" "k \<noteq> ''reasoning_effort''"
  shows "getCompletionOpts model opts k = customValue opts k"
proof -
  have "(case reasoningEffort opts of None \<Rightarrow> Map.empty
              | Some e \<Rightarrow> if modelSupportsReasoningEffort model \<and> e \<noteq> []
                     then [''reasoning_effort'' \<mapsto> RStr e] else Map.empty) k = None"
    using assms by (simp split: option.splits)
  then show ?thesis
    using assms
    by (simp add: getCompletionOpts_custom map_add_None_right spreadNum_other
        split: option.splits)
qed

lemma doStream_key:
  assumes "k \<noteq> ''stream_options''" "k \<noteq> ''stream''" "k \<noteq> ''tools''" "k \<noteq> ''tool_choice''"
    "k \<noteq> ''model''" "k \<noteq> ''messages''"
  shows "fst (openai_doStream A E c) k = getCompletionOpts (o_model c) (o_opts c) k"
  using assms
  by (simp add: openai_doStream_def Let_def getFunctionCallingOptions_eq map_add_def
      split: option.splits)

lemma getModel_tools:
  "mp_tools (getModel E model instructions opts) =
     (if (tools opts = Some True \<or> top_k opts \<noteq> None) \<and> supportsTools model
         \<and> getAvailableTools E \<noteq> []
      then Some [map toFunctionDeclaration (getAvailableTools E)] else None)"
  by (simp add: getModel_def Let_def)

lemma doStream_tools:
  "fst (openai_doStream A E c) ''tools'' =
     (if tools (o_opts c) \<noteq> Some False \<and> top_k (o_opts c) \<noteq> None
         \<and> modelSupportsTools A (o_model c) \<and> getAvailableTools E \<noteq> []
      then Some (RTools (getAvailableTools E)) else customValue (o_opts c) ''tools'')"
  by (auto simp: openai_doStream_def Let_def getFunctionCallingOptions_eq
      getCompletionOpts_other map_add_def split: option.splits)

subsection \<open>When tool declarations are sent\<close>

text \<open>
  C1 on the code, at a turn with the tools flag \<open>true\<close> and no \<open>top_k\<close>, a model that
  supports tools and one registered tool. The Google adapter declares the tool: the
  model object it builds carries the declaration, and the backend of \<open>chat\<close> sees it.
  The OpenAI adapter does not: \<open>getFunctionCallingOptions\<close> returns the empty object,
  for OpenRouter as well, so that neither the request of \<open>chat\<close> nor the request of
  \<open>doStream\<close> has a \<open>tools\<close> key. With \<open>top_k\<close> given besides the flag, the request of
  the OpenAI adapter does declare the tool.
\<close>

theorem explicit_tools_flag_ignored_by_openai:
  "tools (noOpts\<lparr>tools := Some True\<rparr>) = Some True
   \<and> top_k (noOpts\<lparr>tools := Some True\<rparr>) = None
   \<and> modelSupportsTools OpenAI ''gpt-4o'' \<and> modelSupportsTools OpenRouter ''gpt-4o''
   \<and> supportsTools ''gemini-1.5-pro''
   \<and> getAvailableTools sampleEngine = [weatherTool]
   \<and> getFunctionCallingOptions OpenAI sampleEngine ''gpt-4o'' (noOpts\<lparr>tools := Some True\<rparr>)
       = Map.empty
   \<and> getFunctionCallingOptions OpenRouter sampleEngine ''gpt-4o'' (noOpts\<lparr>tools := Some True\<rparr>)
       = Map.empty
   \<and> openai_chat 1 OpenAI sampleEngine openai_toolsProbe ''gpt-4o''
        (map PayloadMessage weatherThread) (noOpts\<lparr>tools := Some True\<rparr>) []
       = Some (Returned \<lparr>r_type = ''text'', r_content = ''no tools declared'',
           r_toolCalls = [], r_usage = None\<rparr> [])
   \<and> fst (openai_doStream OpenAI sampleEngine
        \<lparr>o_model = ''gpt-4o'', o_thread = map PayloadMessage weatherThread,
         o_opts = noOpts\<lparr>tools := Some True\<rparr>, o_toolCalls = [], o_done = False\<rparr>) ''tools''
       = None
   \<and> openai_chat 1 OpenAI sampleEngine openai_toolsProbe ''gpt-4o''
        (map PayloadMessage weatherThread) (noOpts\<lparr>tools := Some True, top_k := Some (Num 5)\<rparr>) []
       = Some (Returned \<lparr>r_type = ''text'', r_content = ''tools declared'',
           r_toolCalls = [], r_usage = None\<rparr> [])
   \<and> mp_tools (getModel sampleEngine ''gemini-1.5-pro'' None (noOpts\<lparr>tools := Some True\<rparr>))
       = Some [[toFunctionDeclaration weatherTool]]
   \<and> google_chat 1 sampleEngine google_toolsProbe ''gemini-1.5-pro''
        (map messageToContent weatherThread) (noOpts\<lparr>tools := Some True\<rparr>) []
       = Some (Returned \<lparr>r_type = ''text'', r_content = ''tools declared'',
           r_toolCalls = [], r_usage = None\<rparr> [])"
proof -
  have o: "getFunctionCallingOptions A sampleEngine ''gpt-4o'' (noOpts\<lparr>tools := Some True\<rparr>)
      = Map.empty" for A
    by (simp add: getFunctionCallingOptions_def noOpts_def)
  have c: "getCompletionOpts ''gpt-4o'' (noOpts\<lparr>tools := Some True\<rparr>) = Map.empty"
    "getCompletionOpts ''gpt-4o'' (noOpts\<lparr>tools := Some True, top_k := Some (Num 5)\<rparr>)
       = [''logprobs'' \<mapsto> RBool True, ''top_logprobs'' \<mapsto> RNum (Num 5)]"
    by (simp_all add: getCompletionOpts_def spreadNum_def noOpts_def modelSupportsTopK_def
        modelIsReasoning_def)
  have k: "getFunctionCallingOptions OpenAI sampleEngine ''gpt-4o''
        (noOpts\<lparr>tools := Some True, top_k := Some (Num 5)\<rparr>)
      = [''tools'' \<mapsto> RTools [weatherTool], ''tool_choice'' \<mapsto> RStr ''auto'']"
    by (simp add: getFunctionCallingOptions_def noOpts_def sampleEngine_def)
  have us: "usage (noOpts\<lparr>tools := Some True\<rparr>) = None"
    "usage (noOpts\<lparr>tools := Some True, top_k := Some (Num 5)\<rparr>) = None"
    by (simp_all add: noOpts_def)
  have 1: "openai_chat 1 OpenAI sampleEngine openai_toolsProbe ''gpt-4o''
        (map PayloadMessage weatherThread) (noOpts\<lparr>tools := Some True\<rparr>) []
       = Some (Returned \<lparr>r_type = ''text'', r_content = ''no tools declared'',
           r_toolCalls = [], r_usage = None\<rparr> [])"
    by (simp add: o c us openai_toolsProbe_def firstChoice_def Let_def)
  have 2: "openai_chat 1 OpenAI sampleEngine openai_toolsProbe ''gpt-4o''
        (map PayloadMessage weatherThread) (noOpts\<lparr>tools := Some True, top_k := Some (Num 5)\<rparr>) []
       = Some (Returned \<lparr>r_type = ''text'', r_content = ''tools declared'',
           r_toolCalls = [], r_usage = None\<rparr> [])"
    by (simp add: k c us openai_toolsProbe_def firstChoice_def Let_def)
  have 3: "fst (openai_doStream OpenAI sampleEngine
        \<lparr>o_model = ''gpt-4o'', o_thread = map PayloadMessage weatherThread,
         o_opts = noOpts\<lparr>tools := Some True\<rparr>, o_toolCalls = [], o_done = False\<rparr>) ''tools''
       = None"
    by (simp add: doStream_tools noOpts_def customValue_def)
  have g: "mp_tools (getModel sampleEngine ''gemini-1.5-pro'' None (noOpts\<lparr>tools := Some True\<rparr>))
       = Some [[toFunctionDeclaration weatherTool]]"
    by (simp add: getModel_tools noOpts_def sampleEngine_def supportsTools_def)
  have 4: "google_chat 1 sampleEngine google_toolsProbe ''gemini-1.5-pro''
        (map messageToContent weatherThread) (noOpts\<lparr>tools := Some True\<rparr>) []
       = Some (Returned \<lparr>r_type = ''text'', r_content = ''tools declared'',
           r_toolCalls = [], r_usage = None\<rparr> [])"
    by (simp add: g us google_toolsProbe_def functionCalls_def gr_text_def
        hadBadFinishReason_def badFinishReasons_def pendingCalls_def Let_def weatherThread_def)
  have 5: "tools (noOpts\<lparr>tools := Some True\<rparr>) = Some True
      \<and> top_k (noOpts\<lparr>tools := Some True\<rparr>) = None
      \<and> modelSupportsTools OpenAI ''gpt-4o'' \<and> modelSupportsTools OpenRouter ''gpt-4o''
      \<and> supportsTools ''gemini-1.5-pro''
      \<and> getAvailableTools sampleEngine = [weatherTool]"
    by (simp add: noOpts_def supportsTools_def sampleEngine_def)
  show ?thesis
    using o [of OpenAI] o [of OpenRouter] 1 2 3 g 4 5 by blast
qed

subsection \<open>Options that are falsy or not supported\<close>




lemma spreadNum_unsupported: "spreadNum False v obj = spreadNum False None obj"
  by (simp add: spreadNum_def split: option.splits)

lemma spreadNum_None: "spreadNum s None obj k = None"
  by (simp add: spreadNum_def)



lemma customValue_upd [simp]:
  "customValue (opts\<lparr>maxTokens := a\<rparr>) = customValue opts"
  "customValue (opts\<lparr>temperature := a\<rparr>) = customValue opts"
  "customValue (opts\<lparr>top_k := a\<rparr>) = customValue opts"
  "customValue (opts\<lparr>top_p := a\<rparr>) = customValue opts"
  "customValue (opts\<lparr>reasoningEffort := b\<rparr>) = customValue opts"
  by (simp_all add: customValue_def fun_eq_iff)

lemma reasoning_part_other:
  "k \<noteq> ''reasoning_effort'' \<Longrightarrow>
   (case e of None \<Rightarrow> Map.empty
    | Some e \<Rightarrow> if s \<and> e \<noteq> [] then [''reasoning_effort'' \<mapsto> RStr e] else Map.empty) k = None"
  by (simp split: option.splits)

lemma getCompletionOpts_absent:
  "maxTokens opts = None \<Longrightarrow> getCompletionOpts model opts ''max_completion_tokens'' = customValue opts ''max_completion_tokens''"
  "temperature opts = None \<Longrightarrow> getCompletionOpts model opts ''temperature'' = customValue opts ''temperature''"
  "top_k opts = None \<Longrightarrow> getCompletionOpts model opts ''logprobs'' = customValue opts ''logprobs''"
  "top_k opts = None \<Longrightarrow> getCompletionOpts model opts ''top_logprobs'' = customValue opts ''top_logprobs''"
  "top_p opts = None \<Longrightarrow> getCompletionOpts model opts ''top_p'' = customValue opts ''top_p''"
  "reasoningEffort opts = None \<Longrightarrow> getCompletionOpts model opts ''reasoning_effort'' = customValue opts ''reasoning_effort''"
  by (simp_all add: getCompletionOpts_custom map_add_None_right spreadNum_other spreadNum_None
      reasoning_part_other split: option.splits)


lemma getCompletionOpts_unsupported:
  "\<not> modelSupportsTemperature model \<Longrightarrow>
     getCompletionOpts model opts = getCompletionOpts model (opts\<lparr>temperature := None\<rparr>)"
  "\<not> modelSupportsTopK model \<Longrightarrow>
     getCompletionOpts model opts = getCompletionOpts model (opts\<lparr>top_k := None\<rparr>)"
  "\<not> modelSupportsTopP model \<Longrightarrow>
     getCompletionOpts model opts = getCompletionOpts model (opts\<lparr>top_p := None\<rparr>)"
  "\<not> modelSupportsReasoningEffort model \<Longrightarrow>
     getCompletionOpts model opts = getCompletionOpts model (opts\<lparr>reasoningEffort := None\<rparr>)"
  by (simp_all add: getCompletionOpts_def spreadNum_unsupported [of "temperature opts"]
      spreadNum_unsupported [of "top_k opts"] spreadNum_unsupported [of "top_p opts"]
      split: option.splits)

lemma openai_cumulate_cong:
  "usage o1 = usage o2 \<Longrightarrow> openai_cumulate o1 response completion = openai_cumulate o2 response completion"
  by (simp add: openai_cumulate_def cong: option.case_cong prod.case_cong)

lemma openai_chat_cong:
  assumes "getCompletionOpts model o1 = getCompletionOpts model o2"
    and "getFunctionCallingOptions A E model o1 = getFunctionCallingOptions A E model o2"
    and "usage o1 = usage o2"
  shows "openai_chat n A E backend model thread o1 w = openai_chat n A E backend model thread o2 w"
proof (induction n arbitrary: thread w)
  case 0
  show ?case by simp
next
  case (Suc n)
  show ?case
    by (simp add: assms Let_def Suc openai_cumulate_cong [OF assms(3)]
        split: option.splits list.splits prod.splits outcome.splits)
qed

lemma getFunctionCallingOptions_upd:
  "getFunctionCallingOptions A E model (opts\<lparr>temperature := a\<rparr>) = getFunctionCallingOptions A E model opts"
  "getFunctionCallingOptions A E model (opts\<lparr>top_p := a\<rparr>) = getFunctionCallingOptions A E model opts"
  "getFunctionCallingOptions A E model (opts\<lparr>maxTokens := a\<rparr>) = getFunctionCallingOptions A E model opts"
  "getFunctionCallingOptions A E model (opts\<lparr>reasoningEffort := b\<rparr>) = getFunctionCallingOptions A E model opts"
  by (simp_all add: getFunctionCallingOptions_def)

lemma openai_chat_unsupported:
  "\<not> modelSupportsTemperature model \<Longrightarrow>
     openai_chat n A E backend model thread opts w =
     openai_chat n A E backend model thread (opts\<lparr>temperature := None\<rparr>) w"
  "\<not> modelSupportsTopP model \<Longrightarrow>
     openai_chat n A E backend model thread opts w =
     openai_chat n A E backend model thread (opts\<lparr>top_p := None\<rparr>) w"
  "\<not> modelSupportsReasoningEffort model \<Longrightarrow>
     openai_chat n A E backend model thread opts w =
     openai_chat n A E backend model thread (opts\<lparr>reasoningEffort := None\<rparr>) w"
  by (rule openai_chat_cong; simp add: getCompletionOpts_unsupported(1,3,4) [symmetric] getFunctionCallingOptions_upd)+

lemma getModel_reasoningEffort:
  "getModel E model i (opts\<lparr>reasoningEffort := e\<rparr>) = getModel E model i opts"
  by (simp add: getModel_def)

lemma getGenerationConfig_reasoningEffort:
  "getGenerationConfig (opts\<lparr>reasoningEffort := e\<rparr>) = getGenerationConfig opts"
  by (simp add: getGenerationConfig_def)

text \<open>
  C9. An option the model does not support is left out of the request and the turn goes
  on as if it had not been given. For the OpenAI adapter: the completion options are
  those of the same options without the unsupported one, the key of the request holds
  only what the custom options pass through, and (for the temperature, \<open>top_p\<close> and the
  reasoning effort, which nothing else reads) the whole turn is the turn without the
  option; every model supports \<open>maxTokens\<close>. The streaming request takes these keys from
  the completion options. The Google adapter never sends a reasoning effort.
\<close>

theorem unsupported_option_omitted:
  "(\<not> modelSupportsTemperature model \<longrightarrow>
      getCompletionOpts model opts = getCompletionOpts model (opts\<lparr>temperature := None\<rparr>)
      \<and> getCompletionOpts model opts ''temperature'' = customValue opts ''temperature''
      \<and> openai_chat n A E backend model thread opts w =
          openai_chat n A E backend model thread (opts\<lparr>temperature := None\<rparr>) w)
   \<and> (\<not> modelSupportsTopP model \<longrightarrow>
      getCompletionOpts model opts = getCompletionOpts model (opts\<lparr>top_p := None\<rparr>)
      \<and> getCompletionOpts model opts ''top_p'' = customValue opts ''top_p''
      \<and> openai_chat n A E backend model thread opts w =
          openai_chat n A E backend model thread (opts\<lparr>top_p := None\<rparr>) w)
   \<and> (\<not> modelSupportsTopK model \<longrightarrow>
      getCompletionOpts model opts = getCompletionOpts model (opts\<lparr>top_k := None\<rparr>)
      \<and> getCompletionOpts model opts ''top_logprobs'' = customValue opts ''top_logprobs''
      \<and> getCompletionOpts model opts ''logprobs'' = customValue opts ''logprobs'')
   \<and> (\<not> modelSupportsReasoningEffort model \<longrightarrow>
      getCompletionOpts model opts = getCompletionOpts model (opts\<lparr>reasoningEffort := None\<rparr>)
      \<and> getCompletionOpts model opts ''reasoning_effort'' = customValue opts ''reasoning_effort''
      \<and> openai_chat n A E backend model thread opts w =
          openai_chat n A E backend model thread (opts\<lparr>reasoningEffort := None\<rparr>) w)
   \<and> modelSupportsMaxTokens model
   \<and> getGenerationConfig (opts\<lparr>reasoningEffort := e\<rparr>) = getGenerationConfig opts
   \<and> getModel E model i (opts\<lparr>reasoningEffort := e\<rparr>) = getModel E model i opts
   \<and> (\<forall>k \<in> {''max_completion_tokens'', ''temperature'', ''top_p'', ''top_logprobs'',
          ''logprobs'', ''reasoning_effort''}.
        fst (openai_doStream A E c) k = getCompletionOpts (o_model c) (o_opts c) k)"
proof -
  have t: "\<not> modelSupportsTemperature model \<Longrightarrow>
      getCompletionOpts model opts ''temperature'' = customValue opts ''temperature''"
    using getCompletionOpts_unsupported(1) [of model opts]
      getCompletionOpts_absent(2) [of "opts\<lparr>temperature := None\<rparr>" model] by simp
  have p: "\<not> modelSupportsTopP model \<Longrightarrow>
      getCompletionOpts model opts ''top_p'' = customValue opts ''top_p''"
    using getCompletionOpts_unsupported(3) [of model opts]
      getCompletionOpts_absent(5) [of "opts\<lparr>top_p := None\<rparr>" model] by simp
  have k: "\<not> modelSupportsTopK model \<Longrightarrow>
      getCompletionOpts model opts ''top_logprobs'' = customValue opts ''top_logprobs''
      \<and> getCompletionOpts model opts ''logprobs'' = customValue opts ''logprobs''"
    using getCompletionOpts_unsupported(2) [of model opts]
      getCompletionOpts_absent(3,4) [of "opts\<lparr>top_k := None\<rparr>" model] by simp
  have r: "\<not> modelSupportsReasoningEffort model \<Longrightarrow>
      getCompletionOpts model opts ''reasoning_effort'' = customValue opts ''reasoning_effort''"
    using getCompletionOpts_unsupported(4) [of model opts]
      getCompletionOpts_absent(6) [of "opts\<lparr>reasoningEffort := None\<rparr>" model] by simp
  have d: "\<forall>k \<in> {''max_completion_tokens'', ''temperature'', ''top_p'', ''top_logprobs'',
          ''logprobs'', ''reasoning_effort''}.
        fst (openai_doStream A E c) k = getCompletionOpts (o_model c) (o_opts c) k"
    by (simp add: doStream_key)
  show ?thesis
    using t p k r d getCompletionOpts_unsupported [of model opts]
      openai_chat_unsupported [of model n A E backend thread opts w]
      getGenerationConfig_reasoningEffort getModel_reasoningEffort
    by (simp add: modelSupportsMaxTokens_def)
qed


text \<open>A reasoning model given a temperature, a \<open>top_p\<close> and a \<open>top_k\<close>, and a
  model without reasoning given a reasoning effort: none reaches the request.\<close>

theorem unsupported_option_omitted_witness:
  "\<not> modelSupportsTemperature ''o3-mini'' \<and> \<not> modelSupportsTopP ''o3-mini''
   \<and> \<not> modelSupportsTopK ''o3-mini'' \<and> \<not> modelSupportsReasoningEffort ''gpt-4o''
   \<and> getCompletionOpts ''o3-mini'' (noOpts\<lparr>temperature := Some (Num 1)\<rparr>) ''temperature'' = None
   \<and> getCompletionOpts ''o3-mini'' (noOpts\<lparr>top_p := Some (Num 1)\<rparr>) ''top_p'' = None
   \<and> getCompletionOpts ''o3-mini'' (noOpts\<lparr>top_k := Some (Num 5)\<rparr>) ''top_logprobs'' = None
   \<and> getCompletionOpts ''gpt-4o'' (noOpts\<lparr>reasoningEffort := Some ''high''\<rparr>)
        ''reasoning_effort'' = None
   \<and> fst (openai_doStream OpenAI sampleEngine
        \<lparr>o_model = ''o3-mini'', o_thread = [], o_opts = noOpts\<lparr>temperature := Some (Num 1)\<rparr>,
         o_toolCalls = [], o_done = False\<rparr>) ''temperature'' = None"
proof -
  have s: "\<not> modelSupportsTemperature ''o3-mini''" "\<not> modelSupportsTopP ''o3-mini''"
    "\<not> modelSupportsTopK ''o3-mini''" "\<not> modelSupportsReasoningEffort ''gpt-4o''"
    by (simp_all add: modelSupportsTemperature_def modelSupportsTopP_def modelSupportsTopK_def
      modelSupportsReasoningEffort_def modelIsReasoning_def)
  have 1: "getCompletionOpts ''o3-mini'' (noOpts\<lparr>temperature := Some (Num 1)\<rparr>) ''temperature''
      = customValue (noOpts\<lparr>temperature := Some (Num 1)\<rparr>) ''temperature''"
    "fst (openai_doStream OpenAI sampleEngine
        \<lparr>o_model = ''o3-mini'', o_thread = [], o_opts = noOpts\<lparr>temperature := Some (Num 1)\<rparr>,
         o_toolCalls = [], o_done = False\<rparr>) ''temperature''
      = getCompletionOpts ''o3-mini'' (noOpts\<lparr>temperature := Some (Num 1)\<rparr>) ''temperature''"
    using s(1) unsupported_option_omitted [where model = "''o3-mini''"
        and opts = "noOpts\<lparr>temperature := Some (Num 1)\<rparr>" and A = OpenAI and E = sampleEngine
        and c = "\<lparr>o_model = ''o3-mini'', o_thread = [],
          o_opts = noOpts\<lparr>temperature := Some (Num 1)\<rparr>, o_toolCalls = [], o_done = False\<rparr>"]
    by (blast, simp)
  have 2: "getCompletionOpts ''o3-mini'' (noOpts\<lparr>top_p := Some (Num 1)\<rparr>) ''top_p''
      = customValue (noOpts\<lparr>top_p := Some (Num 1)\<rparr>) ''top_p''"
    using s(2) unsupported_option_omitted [where model = "''o3-mini''"
        and opts = "noOpts\<lparr>top_p := Some (Num 1)\<rparr>" and E = sampleEngine]
    by blast
  have 3: "getCompletionOpts ''o3-mini'' (noOpts\<lparr>top_k := Some (Num 5)\<rparr>) ''top_logprobs''
      = customValue (noOpts\<lparr>top_k := Some (Num 5)\<rparr>) ''top_logprobs''"
    using s(3) unsupported_option_omitted [where model = "''o3-mini''"
        and opts = "noOpts\<lparr>top_k := Some (Num 5)\<rparr>" and E = sampleEngine]
    by blast
  have 4: "getCompletionOpts ''gpt-4o'' (noOpts\<lparr>reasoningEffort := Some ''high''\<rparr>)
        ''reasoning_effort'' = customValue (noOpts\<lparr>reasoningEffort := Some ''high''\<rparr>)
        ''reasoning_effort''"
    using s(4) unsupported_option_omitted [where model = "''gpt-4o''"
        and opts = "noOpts\<lparr>reasoningEffort := Some ''high''\<rparr>" and E = sampleEngine]
    by blast
  have c: "customValue (noOpts\<lparr>temperature := a\<rparr>) k = None"
    "customValue (noOpts\<lparr>top_p := a\<rparr>) k = None"
    "customValue (noOpts\<lparr>top_k := a\<rparr>) k = None"
    "customValue (noOpts\<lparr>reasoningEffort := e\<rparr>) k = None"
    "customValue noOpts k = None" for a e k
    by (simp_all add: customValue_def noOpts_def)
  show ?thesis
    using s 1 2 3 4 by (simp add: c)
qed



subsection \<open>No system role for a model without it\<close>

lemma openai_buildPayload_no_system:
  "\<not> modelAcceptsSystemRole model \<Longrightarrow>
     \<forall>p \<in> set (openai_buildPayload E model thread opts). role p \<noteq> ''system''"
  by (simp add: openai_buildPayload_def Let_def)

lemma messageToContent_role:
  "role p \<noteq> ''system'' \<Longrightarrow> c_role (messageToContent p) \<noteq> ''system''"
  by (simp add: messageToContent_def)

lemma threadToHistory_no_system:
  "\<forall>c \<in> set (threadToHistory E thread model opts). c_role c \<noteq> ''system''"
  by (auto simp: threadToHistory_def Let_def messageToContent_def)

lemma openai_stream_thread:
  "o_thread (snd (openai_stream A E model thread opts)) =
     map PayloadMessage (openai_buildPayload E (selectModel E model thread opts) thread opts)"
  by (simp add: openai_stream_def openai_doStream_def Let_def)

text \<open>
  C5. For a model that does not accept the system role, the payload the OpenAI adapter
  builds has no message with the system role, and neither has the thread of the
  streaming context that is started with it (the payload is built for the model that
  \<open>selectModel\<close> chose). The history the Google adapter builds has no content with the
  system role for any model, those without instructions included: every system message
  of the payload is relabelled as a user message.
\<close>

theorem no_system_role_in_payload:
  "(\<not> modelAcceptsSystemRole model \<longrightarrow>
      (\<forall>p \<in> set (openai_buildPayload E model thread opts). role p \<noteq> ''system''))
   \<and> (\<not> modelAcceptsSystemRole (selectModel E model thread opts) \<longrightarrow>
      (\<forall>m \<in> set (o_thread (snd (openai_stream A E model thread opts))).
         messageRole m \<noteq> ''system''))
   \<and> (\<forall>c \<in> set (threadToHistory E thread model opts). c_role c \<noteq> ''system'')"
  using openai_buildPayload_no_system [of model E thread opts]
    openai_buildPayload_no_system [of "selectModel E model thread opts" E thread opts]
    threadToHistory_no_system [of E thread model opts]
  by (auto simp: openai_stream_thread)

text \<open>The thread of scenario A, for \<open>o1-mini\<close> and for \<open>models/gemini-pro\<close>: the system
  message is dropped by the one adapter and relabelled by the other.\<close>

theorem no_system_role_in_payload_witness:
  "\<not> modelAcceptsSystemRole ''o1-mini'' \<and> \<not> supportsInstructions ''models/gemini-pro''
   \<and> list_all (\<lambda>p. role p \<noteq> ''system'')
        (openai_buildPayload sampleEngine ''o1-mini'' sampleThread noOpts)
   \<and> map role (openai_buildPayload sampleEngine ''o1-mini'' sampleThread noOpts) = [''user'']
   \<and> list_all (\<lambda>c. c_role c \<noteq> ''system'')
        (threadToHistory sampleEngine sampleThread ''models/gemini-pro'' noOpts)
   \<and> map c_role (threadToHistory sampleEngine sampleThread ''models/gemini-pro'' noOpts)
        = [''user'', ''user'']"
proof -
  have m: "\<not> modelAcceptsSystemRole ''o1-mini''" "\<not> supportsInstructions ''models/gemini-pro''"
    by (simp_all add: modelAcceptsSystemRole_def supportsInstructions_def)
  have a: "list_all (\<lambda>p. role p \<noteq> ''system'')
        (openai_buildPayload sampleEngine ''o1-mini'' sampleThread noOpts)"
    and b: "list_all (\<lambda>c. c_role c \<noteq> ''system'')
        (threadToHistory sampleEngine sampleThread ''models/gemini-pro'' noOpts)"
    using m no_system_role_in_payload [of "''o1-mini''" sampleEngine sampleThread noOpts]
      no_system_role_in_payload [of "''models/gemini-pro''" sampleEngine sampleThread noOpts]
    unfolding list_all_iff by blast+
  have c: "map role (openai_buildPayload sampleEngine ''o1-mini'' sampleThread noOpts) = [''user'']"
    by (simp add: openai_buildPayload_def sampleEngine_def sampleThread_def
        modelAcceptsSystemRole_def)
  have d: "map c_role (threadToHistory sampleEngine sampleThread ''models/gemini-pro'' noOpts)
        = [''user'', ''user'']"
    by (simp add: threadToHistory_def sampleEngine_def sampleThread_def
        supportsInstructions_def messageToContent_def)
  show ?thesis using m a b c d by blast
qed

subsection \<open>The tool call records of a turn\<close>

lemma google_cumulate_toolCalls [simp]:
  "r_toolCalls (google_cumulate opts response completion) = r_toolCalls completion"
  by (simp add: google_cumulate_def split: option.splits)

lemma openai_cumulate_toolCalls:
  "openai_cumulate opts response completion = Inr completion1 \<Longrightarrow>
     r_toolCalls completion1 = r_toolCalls completion"
  by (auto simp: openai_cumulate_def split: option.splits if_splits sum.splits)

lemma google_callTools_order:
  "google_callTools E calls w = (results, toolCallInfo, w1) \<Longrightarrow>
     map tci_name toolCallInfo = map fc_name calls
     \<and> map tci_params toolCallInfo = map fc_args calls
     \<and> (map tci_result toolCallInfo, w1) = invokeAll E (map (\<lambda>c. (fc_name c, fc_args c)) calls) w"
proof (induction calls arbitrary: w results toolCallInfo w1)
  case Nil
  then show ?case by simp
next
  case (Cons c calls)
  obtain result w2 where 1: "callTool E (fc_name c) (fc_args c) w = (result, w2)"
    by (cases "callTool E (fc_name c) (fc_args c) w") auto
  obtain rs info w3 where 2: "google_callTools E calls w2 = (rs, info, w3)"
    by (cases "google_callTools E calls w2") auto
  from Cons.IH [OF 2] have 3: "map tci_name info = map fc_name calls"
    "map tci_params info = map fc_args calls"
    "invokeAll E (map (\<lambda>c. (fc_name c, fc_args c)) calls) w2 = (map tci_result info, w3)"
    by simp_all
  from Cons.prems 1 2 3 show ?case
    by auto
qed

lemma google_chat_toolLoop:
  "google_chat n E backend modelName thread opts w = Some (Returned r w1) \<Longrightarrow>
     google_toolLoop_spec n E backend modelName thread opts w acc = Some (acc @ r_toolCalls r)"
proof (induction n arbitrary: thread w acc r w1)
  case 0
  then show ?case by simp
next
  case (Suc n)
  show ?case
  proof (cases "thread = []")
    case True
    with Suc.prems show ?thesis by simp
  next
    case False
    define response where "response = backend \<lparr>rq_model = getModel E modelName None opts,
              rq_contents = thread, rq_generationConfig = getGenerationConfig opts\<rparr>"
    from Suc.prems False obtain toolCalls where fc: "functionCalls response = Inr toolCalls"
      by (cases "functionCalls response") (auto simp: Let_def response_def [symmetric])
    show ?thesis
    proof (cases "pendingCalls toolCalls = []")
      case True
      with Suc.prems False fc show ?thesis
        by (auto simp: Let_def response_def [symmetric] split: sum.splits)
    next
      case calls: False
      obtain results toolCallInfo w2 where
        ct: "google_callTools E (pendingCalls toolCalls) w = (results, toolCallInfo, w2)"
        by (cases "google_callTools E (pendingCalls toolCalls) w") auto
      from Suc.prems False fc calls ct obtain c cs where
        cand: "candidates response = Some (c # cs)"
        by (auto simp: Let_def response_def [symmetric] split: option.splits list.splits)
      define thread1 where "thread1 = thread @ [\<lparr>c_role = ''assistant'', c_parts = cand_parts c\<rparr>,
                                          \<lparr>c_role = ''tool'', c_parts = results\<rparr>]"
      from Suc.prems False fc calls ct cand obtain completion where
        rec: "google_chat n E backend modelName thread1 opts w2 = Some (Returned completion w1)"
        and r: "r = google_cumulate opts response
                 (completion\<lparr>r_toolCalls := toolCallInfo @ r_toolCalls completion\<rparr>)"
        by (auto simp: Let_def response_def [symmetric] thread1_def [symmetric]
            split: option.splits outcome.splits)
      from Suc.IH [OF rec, of "acc @ toolCallInfo"]
      show ?thesis
        using False fc calls ct cand r
        by (simp add: Let_def response_def [symmetric] thread1_def [symmetric])
    qed
  qed
qed


lemma openai_callTools_order:
  "openai_callTools E calls w = (msgs, toolCallInfo, w1, None) \<Longrightarrow>
     map tci_name toolCallInfo = map call_name calls
     \<and> map (\<lambda>i. Some (tci_params i)) toolCallInfo = map (\<lambda>c. JSON_parse E (call_arguments c)) calls
     \<and> (map tci_result toolCallInfo, w1) =
         invokeAll E (zip (map tci_name toolCallInfo) (map tci_params toolCallInfo)) w"
proof (induction calls arbitrary: w msgs toolCallInfo w1)
  case Nil
  then show ?case by simp
next
  case (Cons c calls)
  from Cons.prems obtain args where 0: "JSON_parse E (call_arguments c) = Some args"
    by (cases "JSON_parse E (call_arguments c)") auto
  obtain result w2 where 1: "callTool E (call_name c) args w = (result, w2)"
    by (cases "callTool E (call_name c) args w") auto
  obtain ms info w3 err where 2: "openai_callTools E calls w2 = (ms, info, w3, err)"
    by (cases "openai_callTools E calls w2") auto
  from Cons.prems 0 1 2 have e: "err = None" by simp
  from Cons.IH [OF 2 [unfolded e]] have 3: "map tci_name info = map call_name calls"
    "map (\<lambda>i. Some (tci_params i)) info = map (\<lambda>c. JSON_parse E (call_arguments c)) calls"
    "invokeAll E (zip (map tci_name info) (map tci_params info)) w2 = (map tci_result info, w3)"
    by simp_all
  from Cons.prems 0 1 2 3 show ?case
    by auto
qed

lemma openai_chat_toolLoop:
  "openai_chat n A E backend model thread opts w = Some (Returned r w1) \<Longrightarrow>
     openai_toolLoop_spec n A E backend model thread opts w acc = Some (acc @ r_toolCalls r)"
proof (induction n arbitrary: thread w acc r w1)
  case 0
  then show ?case by simp
next
  case (Suc n)
  define response where "response = backend
            ([''model'' \<mapsto> RStr model, ''messages'' \<mapsto> RMessages thread]
             ++ getCompletionOpts model opts
             ++ getFunctionCallingOptions A E model opts)"
  from Suc.prems obtain c where c: "firstChoice response = Some c"
    by (cases "firstChoice response") (auto simp: Let_def response_def [symmetric])
  show ?case
  proof (cases "ch_finish_reason c = Some ''tool_calls''")
    case False
    with Suc.prems c show ?thesis
      by (auto simp: Let_def response_def [symmetric])
  next
    case True
    from Suc.prems c True obtain toolCalls where
      tc: "cm_tool_calls (ch_message c) = Some toolCalls"
      by (cases "cm_tool_calls (ch_message c)") (auto simp: Let_def response_def [symmetric])
    obtain msgs toolCallInfo w2 err where
      ct: "openai_callTools E toolCalls w = (msgs, toolCallInfo, w2, err)"
      by (cases "openai_callTools E toolCalls w") auto
    from Suc.prems c True tc ct have e: "err = None"
      by (cases err) (auto simp: Let_def response_def [symmetric])
    define thread1 where "thread1 = thread @ ChoiceMessage (ch_message c) # msgs"
    from Suc.prems c True tc ct e obtain completion where
      rec: "openai_chat n A E backend model thread1 opts w2 = Some (Returned completion w1)"
      and r: "openai_cumulate opts response
                 (completion\<lparr>r_toolCalls := toolCallInfo @ r_toolCalls completion\<rparr>) = Inr r"
      by (auto simp: Let_def response_def [symmetric] thread1_def [symmetric]
          split: option.splits outcome.splits sum.splits)
    from Suc.IH [OF rec, of "acc @ toolCallInfo"] openai_cumulate_toolCalls [OF r]
    show ?thesis
      using c True tc ct e
      by (simp add: Let_def response_def [symmetric] thread1_def [symmetric])
  qed
qed


lemma google_sample_turn:
  "google_chat 3 sampleEngine google_sampleBackend ''gemini-1.5-pro''
     (map messageToContent weatherThread) (noOpts\<lparr>usage := Some True\<rparr>) [] =
   Some (Returned
     \<lparr>r_type = ''text'', r_content = ''sunny in Lyon'',
      r_toolCalls =
        [\<lparr>tci_name = ''get_weather'', tci_params = JObj [(''city'', JStr ''Lyon'')],
          tci_result = JStr ''sunny''\<rparr>,
         \<lparr>tci_name = ''get_time'', tci_params = JObj [], tci_result = JStr ''sunny''\<rparr>],
      r_usage = Some \<lparr>prompt_tokens = Num 42, completion_tokens = Num 18,
        total_tokens = None, prompt_tokens_details = None,
        completion_tokens_details = None\<rparr>\<rparr>
     [(''get_weather'', JObj [(''city'', JStr ''Lyon'')]), (''get_time'', JObj [])])"
  by (simp add: numeral_3_eq_3 weatherThread_def messageToContent_def google_sampleBackend_def
      sampleEngine_def functionCalls_def gr_text_def hadBadFinishReason_def
      badFinishReasons_def pendingCalls_def Let_def weatherCall_def clockCall_def
      google_cumulate_def usageOf_def noOpts_def)

lemma openai_sample_turn:
  "openai_chat 3 OpenAI sampleEngine openai_sampleBackend ''gpt-4o''
     (map PayloadMessage weatherThread) (noOpts\<lparr>usage := Some True\<rparr>) [] =
   Some (Returned
     \<lparr>r_type = ''text'', r_content = ''sunny in Lyon'',
      r_toolCalls =
        [\<lparr>tci_name = ''get_weather'', tci_params = JObj [], tci_result = JStr ''sunny''\<rparr>,
         \<lparr>tci_name = ''get_time'', tci_params = JObj [], tci_result = JStr ''sunny''\<rparr>],
      r_usage = Some \<lparr>prompt_tokens = Num 42, completion_tokens = Num 7,
        total_tokens = None, prompt_tokens_details = None,
        completion_tokens_details = None\<rparr>\<rparr>
     [(''get_weather'', JObj []), (''get_time'', JObj [])])"
  by (simp add: numeral_3_eq_3 weatherThread_def openai_sampleBackend_def openai_toolAnswer_def
      sampleEngine_def firstChoice_def Let_def map_add_def openai_cumulate_def dropTotal_def
      whenTruthy_def addDetail_def detail_def noOpts_def getFunctionCallingOptions_def
      getCompletionOpts_def spreadNum_def)

text \<open>
  C6. When a turn returns, the tool call records of its result are those the tool loop
  of the specification accumulates, hop after hop with the oldest hop first; and the
  records of one hop name the calls of the backend's answer in the order it reported
  them, with the results the registry gave when the tools ran one at a time in that
  order.
\<close>

theorem tool_call_records_oldest_first:
  "(google_chat n E gbackend gmodel gthread opts w = Some (Returned r w1) \<longrightarrow>
      google_toolLoop_spec n E gbackend gmodel gthread opts w [] = Some (r_toolCalls r))
   \<and> (openai_chat n A E obackend omodel othread opts w = Some (Returned r w1) \<longrightarrow>
      openai_toolLoop_spec n A E obackend omodel othread opts w [] = Some (r_toolCalls r))
   \<and> (google_callTools E gcalls w = (results, info, w2) \<longrightarrow>
      map tci_name info = map fc_name gcalls
      \<and> map tci_params info = map fc_args gcalls
      \<and> (map tci_result info, w2) = invokeAll E (map (\<lambda>c. (fc_name c, fc_args c)) gcalls) w)
   \<and> (openai_callTools E ocalls w = (msgs, info, w2, None) \<longrightarrow>
      map tci_name info = map call_name ocalls
      \<and> map (\<lambda>i. Some (tci_params i)) info = map (\<lambda>c. JSON_parse E (call_arguments c)) ocalls
      \<and> (map tci_result info, w2) =
          invokeAll E (zip (map tci_name info) (map tci_params info)) w)"
  using google_chat_toolLoop [of n E gbackend gmodel gthread opts w r w1 "[]"]
    openai_chat_toolLoop [of n A E obackend omodel othread opts w r w1 "[]"]
    google_callTools_order [of E gcalls w results info w2]
    openai_callTools_order [of E ocalls w msgs info w2]
  by simp

text \<open>Scenario B with a second tool hop, on both adapters: the weather record comes
  before the clock record.\<close>

theorem tool_call_records_oldest_first_witness:
  "(\<exists>r w1. google_chat 3 sampleEngine google_sampleBackend ''gemini-1.5-pro''
       (map messageToContent weatherThread) (noOpts\<lparr>usage := Some True\<rparr>) []
       = Some (Returned r w1))
   \<and> map_option (map tci_name)
        (google_toolLoop_spec 3 sampleEngine google_sampleBackend ''gemini-1.5-pro''
          (map messageToContent weatherThread) (noOpts\<lparr>usage := Some True\<rparr>) [] [])
       = Some [''get_weather'', ''get_time'']
   \<and> (\<exists>r w1. openai_chat 3 OpenAI sampleEngine openai_sampleBackend ''gpt-4o''
       (map PayloadMessage weatherThread) (noOpts\<lparr>usage := Some True\<rparr>) []
       = Some (Returned r w1))
   \<and> map_option (map tci_name)
        (openai_toolLoop_spec 3 OpenAI sampleEngine openai_sampleBackend ''gpt-4o''
          (map PayloadMessage weatherThread) (noOpts\<lparr>usage := Some True\<rparr>) [] [])
       = Some [''get_weather'', ''get_time'']"
  using tool_call_records_oldest_first [where n = 3 and E = sampleEngine
      and gbackend = google_sampleBackend and gmodel = "''gemini-1.5-pro''"
      and gthread = "map messageToContent weatherThread"
      and opts = "noOpts\<lparr>usage := Some True\<rparr>" and w = "[]",
      THEN conjunct1, rule_format, OF google_sample_turn]
    tool_call_records_oldest_first [where n = 3 and E = sampleEngine and A = OpenAI
      and obackend = openai_sampleBackend and omodel = "''gpt-4o''"
      and othread = "map PayloadMessage weatherThread"
      and opts = "noOpts\<lparr>usage := Some True\<rparr>" and w = "[]",
      THEN conjunct2, THEN conjunct1, rule_format, OF openai_sample_turn]
    google_sample_turn openai_sample_turn
  by simp

subsection \<open>Usage across the hops of a turn\<close>

text \<open>
  C2 at work on the OpenAI adapter: usage is tracked, the three hops report 10, 12 and 20
  prompt tokens and 5, 6 and 7 completion tokens. The prompt tokens of the result are
  their sum, 42; the completion tokens are those of the last hop alone, 7 and not 18.
  The Google adapter returns 42 and 18 for the same turn.
\<close>

theorem openai_completion_tokens_not_cumulated:
  "map_option (\<lambda>u. (prompt_tokens u, completion_tokens u))
     (case openai_chat 3 OpenAI sampleEngine openai_sampleBackend ''gpt-4o''
             (map PayloadMessage weatherThread) (noOpts\<lparr>usage := Some True\<rparr>) [] of
        Some (Returned r w) \<Rightarrow> r_usage r | _ \<Rightarrow> None)
     = Some (Num 42, Num 7)
   \<and> map_option (\<lambda>u. (prompt_tokens u, completion_tokens u))
     (case google_chat 3 sampleEngine google_sampleBackend ''gemini-1.5-pro''
             (map messageToContent weatherThread) (noOpts\<lparr>usage := Some True\<rparr>) [] of
        Some (Returned r w) \<Rightarrow> r_usage r | _ \<Rightarrow> None)
     = Some (Num 42, Num 18)"
  by (simp add: openai_sample_turn google_sample_turn)

subsection \<open>Running the tools of a chunk\<close>

lemma parsedCalls_Nil [simp]: "parsedCalls E [] = Some []"
  by (simp add: parsedCalls_def)

lemma parsedCalls_Cons:
  "parsedCalls E (tc # tcs) =
     (case JSON_parse E (tc_args tc) of
        None \<Rightarrow> None
      | Some a \<Rightarrow> map_option (Cons (tc_function tc, a)) (parsedCalls E tcs))"
  by (simp add: parsedCalls_def split: option.splits)



lemma google_runTools_fail:
  "parsedCalls E pre = Some named \<Longrightarrow> JSON_parse E (tc_args bad) = None \<Longrightarrow>
   invokeAll E named w = (results, w1) \<Longrightarrow>
     \<exists>evs res. google_runTools E (pre @ bad # post) w = (evs, res, w1, Some SyntaxError)
      \<and> toolResults evs = map2 (\<lambda>(n, a) r. (n, a, r)) named results
      \<and> list_all (\<lambda>e. \<not> isContent e \<and> \<not> isStream e) evs"
proof (induction pre arbitrary: named results w w1)
  case Nil
  then show ?case by (auto simp: Let_def)
next
  case (Cons tc tcs)
  from Cons.prems(1) obtain a rest where
    a: "JSON_parse E (tc_args tc) = Some a" and rest: "parsedCalls E tcs = Some rest"
    and named: "named = (tc_function tc, a) # rest"
    by (auto simp: parsedCalls_Cons split: option.splits)
  obtain result w2 where ct: "callTool E (tc_function tc) a w = (result, w2)"
    by (cases "callTool E (tc_function tc) a w") auto
  obtain rs w3 where inv: "invokeAll E rest w2 = (rs, w3)"
    by (cases "invokeAll E rest w2") auto
  from Cons.prems(3) named ct inv have r: "results = result # rs" "w1 = w3"
    by auto
  from Cons.IH [OF rest Cons.prems(2) inv] obtain evs res where
    evs: "google_runTools E (tcs @ bad # post) w2 = (evs, res, w3, Some SyntaxError)"
      "toolResults evs = map2 (\<lambda>(n, a) r. (n, a, r)) rest rs"
      "list_all (\<lambda>e. \<not> isContent e \<and> \<not> isStream e) evs"
    by blast
  show ?case
    using a ct evs named r
    by (simp add: Let_def)
qed

lemma openai_runTools_fail:
  "parsedCalls E pre = Some named \<Longrightarrow> JSON_parse E (tc_args bad) = None \<Longrightarrow>
   invokeAll E named w = (results, w1) \<Longrightarrow>
     \<exists>evs. openai_runTools E (pre @ bad # post) w =
        (evs,
         concat (map2 (\<lambda>tc r. [ToolCallMessage (tc_message tc),
            ToolMessage (tc_id tc) (tc_function tc) (JSON_stringify E r)]) pre results),
         w1, Some (InvalidJsonArgs (tc_function bad) (tc_args bad)))
      \<and> toolResults evs = map2 (\<lambda>(n, a) r. (n, a, r)) named results
      \<and> list_all (\<lambda>e. \<not> isContent e \<and> \<not> isStream e) evs"
proof (induction pre arbitrary: named results w w1)
  case Nil
  then show ?case by (auto simp: Let_def)
next
  case (Cons tc tcs)
  from Cons.prems(1) obtain a rest where
    a: "JSON_parse E (tc_args tc) = Some a" and rest: "parsedCalls E tcs = Some rest"
    and named: "named = (tc_function tc, a) # rest"
    by (auto simp: parsedCalls_Cons split: option.splits)
  obtain result w2 where ct: "callTool E (tc_function tc) a w = (result, w2)"
    by (cases "callTool E (tc_function tc) a w") auto
  obtain rs w3 where inv: "invokeAll E rest w2 = (rs, w3)"
    by (cases "invokeAll E rest w2") auto
  from Cons.prems(3) named ct inv have r: "results = result # rs" "w1 = w3"
    by auto
  from Cons.IH [OF rest Cons.prems(2) inv] obtain evs where
    evs: "openai_runTools E (tcs @ bad # post) w2 =
        (evs,
         concat (map2 (\<lambda>tc r. [ToolCallMessage (tc_message tc),
            ToolMessage (tc_id tc) (tc_function tc) (JSON_stringify E r)]) tcs rs),
         w3, Some (InvalidJsonArgs (tc_function bad) (tc_args bad)))"
      "toolResults evs = map2 (\<lambda>(n, a) r. (n, a, r)) rest rs"
      "list_all (\<lambda>e. \<not> isContent e \<and> \<not> isStream e) evs"
    by blast
  show ?case
    using a ct evs named r
    by simp
qed

lemma openai_callTools_fail:
  "those (map (\<lambda>c. map_option (Pair (call_name c)) (JSON_parse E (call_arguments c))) pre)
     = Some named \<Longrightarrow>
   JSON_parse E (call_arguments bad) = None \<Longrightarrow>
   invokeAll E named w = (results, w1) \<Longrightarrow>
     \<exists>msgs info. openai_callTools E (pre @ bad # post) w =
        (msgs, info, w1, Some (InvalidJsonArgs (call_name bad) (call_arguments bad)))
      \<and> map (\<lambda>i. (tci_name i, tci_params i)) info = named
      \<and> map tci_result info = results"
proof (induction pre arbitrary: named results w w1)
  case Nil
  then show ?case by auto
next
  case (Cons tc tcs)
  from Cons.prems(1) obtain a rest where
    a: "JSON_parse E (call_arguments tc) = Some a"
    and rest: "those (map (\<lambda>c. map_option (Pair (call_name c)) (JSON_parse E (call_arguments c))) tcs)
       = Some rest"
    and named: "named = (call_name tc, a) # rest"
    by (auto split: option.splits)
  obtain result w2 where ct: "callTool E (call_name tc) a w = (result, w2)"
    by (cases "callTool E (call_name tc) a w") auto
  obtain rs w3 where inv: "invokeAll E rest w2 = (rs, w3)"
    by (cases "invokeAll E rest w2") auto
  from Cons.prems(3) named ct inv have r: "results = result # rs" "w1 = w3"
    by auto
  from Cons.IH [OF rest Cons.prems(2) inv] obtain msgs info where
    evs: "openai_callTools E (tcs @ bad # post) w2 =
        (msgs, info, w3, Some (InvalidJsonArgs (call_name bad) (call_arguments bad)))"
      "map (\<lambda>i. (tci_name i, tci_params i)) info = rest"
      "map tci_result info = rs"
    by blast
  show ?case
    using a ct evs named r
    by simp
qed

lemma google_saveToolCalls_names:
  "map tc_id (google_saveToolCalls E calls) = map fc_name calls"
  "map tc_function (google_saveToolCalls E calls) = map fc_name calls"
  by (simp_all add: google_saveToolCalls_def comp_def)




lemma openai_accumulate_events:
  "openai_accumulate E chunk tcs = (evs0, tcs1, err) \<Longrightarrow>
     toolResults evs0 = [] \<and> list_all (\<lambda>e. \<not> isContent e \<and> \<not> isStream e) evs0"
  by (auto simp: openai_accumulate_def Let_def split: option.splits list.splits if_splits)

lemma toolResults_append:
  "toolResults (xs @ ys) = toolResults xs @ toolResults ys"
  by (induction xs rule: toolResults.induct) simp_all



subsection \<open>A finished set of tool calls in a streaming turn\<close>



subsection \<open>Arguments that do not parse\<close>

text \<open>
  C8. When the arguments of a tool call do not parse, the adapter throws at that call:
  the OpenAI adapter throws its error naming the tool and the arguments, from \<open>chat\<close>
  (in the hop of the call, whatever fuel is left) and from the translation of the
  chunk; the Google adapter lets the parser's error escape from the translation. The
  registry is left as the calls before the failing one left it and the events report
  only those calls as finished, so the tool was not invoked with the arguments; no
  stream switch follows and \<open>chat\<close> issues no further request.
\<close>

theorem unparsable_arguments_are_fatal:
  "(firstChoice (backend ([''model'' \<mapsto> RStr model, ''messages'' \<mapsto> RMessages thread]
         ++ getCompletionOpts model opts ++ getFunctionCallingOptions A E model opts)) = Some ch
      \<and> ch_finish_reason ch = Some ''tool_calls''
      \<and> cm_tool_calls (ch_message ch) = Some (cpre @ cbad # cpost)
      \<and> those (map (\<lambda>c. map_option (Pair (call_name c)) (JSON_parse E (call_arguments c))) cpre)
          = Some cnamed
      \<and> JSON_parse E (call_arguments cbad) = None
      \<and> invokeAll E cnamed w = (cresults, cw) \<longrightarrow>
    openai_chat (Suc n) A E backend model thread opts w =
      Some (Threw (InvalidJsonArgs (call_name cbad) (call_arguments cbad)) cw))
   \<and> (openai_accumulate E ochunk (o_toolCalls ocontext) = (evs0, opre @ obad # opost, None)
      \<and> finishOf ochunk \<in> {''tool_calls'', ''function_call'', ''stop''}
      \<and> parsedCalls E opre = Some onamed
      \<and> JSON_parse E (tc_args obad) = None
      \<and> invokeAll E onamed w = (oresults, ow) \<longrightarrow>
    (let T = openai_nativeChunkToLlmChunk A E ochunk ocontext w in
       thrown T = Some (InvalidJsonArgs (tc_function obad) (tc_args obad))
       \<and> world T = ow
       \<and> toolResults (events T) = map2 (\<lambda>(n, a) r. (n, a, r)) onamed oresults
       \<and> list_all (\<lambda>e. \<not> isStream e) (events T)))
   \<and> (functionCalls gchunk = Inr (Some gcalls)
      \<and> google_saveToolCalls E gcalls = gpre @ gbad # gpost
      \<and> parsedCalls E gpre = Some gnamed
      \<and> JSON_parse E (tc_args gbad) = None
      \<and> invokeAll E gnamed w = (gresults, gw) \<longrightarrow>
    (let T = google_nativeChunkToLlmChunk E gchunk gcontext w in
       thrown T = Some SyntaxError
       \<and> world T = gw
       \<and> toolResults (events T) = map2 (\<lambda>(n, a) r. (n, a, r)) gnamed gresults
       \<and> list_all (\<lambda>e. \<not> isStream e) (events T)))"
proof -
  have 1: "openai_chat (Suc n) A E backend model thread opts w =
      Some (Threw (InvalidJsonArgs (call_name cbad) (call_arguments cbad)) cw)"
    if "firstChoice (backend ([''model'' \<mapsto> RStr model, ''messages'' \<mapsto> RMessages thread]
         ++ getCompletionOpts model opts ++ getFunctionCallingOptions A E model opts)) = Some ch"
      "ch_finish_reason ch = Some ''tool_calls''"
      "cm_tool_calls (ch_message ch) = Some (cpre @ cbad # cpost)"
      "those (map (\<lambda>c. map_option (Pair (call_name c)) (JSON_parse E (call_arguments c))) cpre)
          = Some cnamed"
      "JSON_parse E (call_arguments cbad) = None"
      "invokeAll E cnamed w = (cresults, cw)"
  proof -
    from openai_callTools_fail [OF that(4,5,6), of cpost] obtain msgs info where
      "openai_callTools E (cpre @ cbad # cpost) w =
        (msgs, info, cw, Some (InvalidJsonArgs (call_name cbad) (call_arguments cbad)))"
      by blast
    with that(1,2,3) show ?thesis
      by (simp add: Let_def)
  qed
  have 2: "let T = openai_nativeChunkToLlmChunk A E ochunk ocontext w in
       thrown T = Some (InvalidJsonArgs (tc_function obad) (tc_args obad))
       \<and> world T = ow
       \<and> toolResults (events T) = map2 (\<lambda>(n, a) r. (n, a, r)) onamed oresults
       \<and> list_all (\<lambda>e. \<not> isStream e) (events T)"
    if "openai_accumulate E ochunk (o_toolCalls ocontext) = (evs0, opre @ obad # opost, None)"
      "finishOf ochunk \<in> {''tool_calls'', ''function_call'', ''stop''}"
      "parsedCalls E opre = Some onamed"
      "JSON_parse E (tc_args obad) = None"
      "invokeAll E onamed w = (oresults, ow)"
  proof -
    from openai_runTools_fail [OF that(3,4,5), of opost] obtain evs where
      evs: "openai_runTools E (opre @ obad # opost) w =
        (evs,
         concat (map2 (\<lambda>tc r. [ToolCallMessage (tc_message tc),
            ToolMessage (tc_id tc) (tc_function tc) (JSON_stringify E r)]) opre oresults),
         ow, Some (InvalidJsonArgs (tc_function obad) (tc_args obad)))"
        "toolResults evs = map2 (\<lambda>(n, a) r. (n, a, r)) onamed oresults"
        "list_all (\<lambda>e. \<not> isContent e \<and> \<not> isStream e) evs"
      by blast
    from openai_accumulate_events [OF that(1)] have e0: "toolResults evs0 = []"
      "list_all (\<lambda>e. \<not> isStream e) evs0"
      by (simp_all add: list_all_iff)
    have la: "list_all (\<lambda>e. \<not> isStream e) evs"
      using evs(3) by (simp add: list_all_iff)
    show ?thesis
      using that(1,2) evs(1,2) la e0
      by (simp add: openai_nativeChunkToLlmChunk_def Let_def toolResults_append)
  qed
  have 3: "let T = google_nativeChunkToLlmChunk E gchunk gcontext w in
       thrown T = Some SyntaxError
       \<and> world T = gw
       \<and> toolResults (events T) = map2 (\<lambda>(n, a) r. (n, a, r)) gnamed gresults
       \<and> list_all (\<lambda>e. \<not> isStream e) (events T)"
    if "functionCalls gchunk = Inr (Some gcalls)"
      "google_saveToolCalls E gcalls = gpre @ gbad # gpost"
      "parsedCalls E gpre = Some gnamed"
      "JSON_parse E (tc_args gbad) = None"
      "invokeAll E gnamed w = (gresults, gw)"
  proof -
    from google_runTools_fail [OF that(3,4,5), of gpost] obtain evs res where
      evs: "google_runTools E (gpre @ gbad # gpost) w = (evs, res, gw, Some SyntaxError)"
        "toolResults evs = map2 (\<lambda>(n, a) r. (n, a, r)) gnamed gresults"
        "list_all (\<lambda>e. \<not> isContent e \<and> \<not> isStream e) evs"
      by blast
    have ne: "gcalls \<noteq> []"
      using that(2) by (auto simp: google_saveToolCalls_def)
    have la: "list_all (\<lambda>e. \<not> isStream e) evs"
      using evs(3) by (simp add: list_all_iff)
    show ?thesis
      using that(1,2) ne evs(1,2) la
      by (simp add: google_nativeChunkToLlmChunk_def pendingCalls_def Let_def)
  qed
  show ?thesis
    using 1 2 3 by blast
qed


text \<open>The OpenAI backend asks for the weather tool with arguments that are not JSON, in
  \<open>chat\<close> and as the second of two streamed calls; the parser of the third engine
  rejects everything. The registry's log shows which tools ran.\<close>

theorem unparsable_arguments_are_fatal_witness:
  "openai_chat (Suc 0) OpenAI sampleEngine openai_badBackend ''gpt-4o''
       (map PayloadMessage weatherThread) noOpts []
     = Some (Threw (InvalidJsonArgs ''get_weather'' ''{city:'') [])
   \<and> (let T = openai_nativeChunkToLlmChunk OpenAI sampleEngine (openai_finishChunk ''tool_calls'')
             (openai_sampleContext\<lparr>o_toolCalls :=
                [openai_weatherRecord ''call_1'' ''{}'', openai_weatherRecord ''call_2'' ''{city:'']\<rparr>)
             [] in
      thrown T = Some (InvalidJsonArgs ''get_weather'' ''{city:'')
      \<and> world T = [(''get_weather'', JObj [])]
      \<and> toolResults (events T) = [(''get_weather'', JObj [], JStr ''sunny'')]
      \<and> list_all (\<lambda>e. \<not> isStream e) (events T))
   \<and> (let T = google_nativeChunkToLlmChunk (sampleEngine\<lparr>JSON_parse := \<lambda>s. None\<rparr>)
             (google_callChunk [weatherCall]) google_sampleContext [] in
      thrown T = Some SyntaxError \<and> world T = [] \<and> toolResults (events T) = []
      \<and> list_all (\<lambda>e. \<not> isStream e) (events T))"
proof -
  let ?req = "[''model'' \<mapsto> RStr ''gpt-4o'', ''messages'' \<mapsto> RMessages (map PayloadMessage weatherThread)]
         ++ getCompletionOpts ''gpt-4o'' noOpts
         ++ getFunctionCallingOptions OpenAI sampleEngine ''gpt-4o'' noOpts"
  let ?ch = "\<lparr>ch_finish_reason = Some ''tool_calls'',
        ch_message = \<lparr>cm_content = None,
          cm_tool_calls = Some [\<lparr>call_id = ''call_1'', call_name = ''get_weather'',
            call_arguments = ''{city:''\<rparr>]\<rparr>\<rparr>"
  let ?bad = "\<lparr>call_id = ''call_1'', call_name = ''get_weather'', call_arguments = ''{city:''\<rparr>"
  have c: "firstChoice (openai_badBackend ?req) = Some ?ch
      \<and> ch_finish_reason ?ch = Some ''tool_calls''
      \<and> cm_tool_calls (ch_message ?ch) = Some ([] @ ?bad # [])
      \<and> those (map (\<lambda>c. map_option (Pair (call_name c))
            (JSON_parse sampleEngine (call_arguments c))) []) = Some []
      \<and> JSON_parse sampleEngine (call_arguments ?bad) = None
      \<and> invokeAll sampleEngine [] [] = ([], [])"
    by (simp add: openai_badBackend_def openai_toolAnswer_def firstChoice_def sampleEngine_def)
  let ?ctx = "openai_sampleContext\<lparr>o_toolCalls :=
                [openai_weatherRecord ''call_1'' ''{}'', openai_weatherRecord ''call_2'' ''{city:'']\<rparr>"
  have o: "openai_accumulate sampleEngine (openai_finishChunk ''tool_calls'') (o_toolCalls ?ctx)
        = ([], [openai_weatherRecord ''call_1'' ''{}''] @ openai_weatherRecord ''call_2'' ''{city:'' # [], None)
      \<and> finishOf (openai_finishChunk ''tool_calls'') \<in> {''tool_calls'', ''function_call'', ''stop''}
      \<and> parsedCalls sampleEngine [openai_weatherRecord ''call_1'' ''{}'']
          = Some [(''get_weather'', JObj [])]
      \<and> JSON_parse sampleEngine (tc_args (openai_weatherRecord ''call_2'' ''{city:'')) = None
      \<and> invokeAll sampleEngine [(''get_weather'', JObj [])] []
          = ([JStr ''sunny''], [(''get_weather'', JObj [])])"
    by (simp add: openai_accumulate_def firstToolCall_def openai_finishChunk_def finishOf_def
        parsedCalls_def openai_weatherRecord_def sampleEngine_def)
  let ?E = "sampleEngine\<lparr>JSON_parse := \<lambda>s. None\<rparr>"
  let ?gbad = "\<lparr>tc_id = ''get_weather'', tc_message = [], tc_function = ''get_weather'',
      tc_args = ''{}''\<rparr>"
  have g: "functionCalls (google_callChunk [weatherCall]) = Inr (Some [weatherCall])
      \<and> google_saveToolCalls ?E [weatherCall] = [] @ ?gbad # []
      \<and> parsedCalls ?E [] = Some []
      \<and> JSON_parse ?E (tc_args ?gbad) = None
      \<and> invokeAll ?E [] [] = ([], [])"
    by (simp add: google_callChunk_def functionCalls_def hadBadFinishReason_def
        google_saveToolCalls_def sampleEngine_def weatherCall_def)
  note t = unparsable_arguments_are_fatal
  from t [where E = sampleEngine and A = OpenAI and w = "[]" and n = 0
      and backend = openai_badBackend and model = "''gpt-4o''" and opts = noOpts
      and thread = "map PayloadMessage weatherThread",
      THEN conjunct1, rule_format, OF c]
    t [where E = sampleEngine and A = OpenAI and w = "[]" and ocontext = ?ctx
      and ochunk = "openai_finishChunk ''tool_calls''",
      THEN conjunct2, THEN conjunct1, rule_format, OF o]
    t [where E = ?E and w = "[]" and gcontext = google_sampleContext
      and gchunk = "google_callChunk [weatherCall]" and gcalls = "[weatherCall]",
      THEN conjunct2, THEN conjunct2, rule_format, OF g]
  show ?thesis
    by (simp add: Let_def openai_weatherRecord_def)
qed

subsection \<open>The in-flight tool call records\<close>

lemma appendExisting_ids [simp]: "map tc_id (appendExisting i a tcs) = map tc_id tcs"
  by (induction tcs) simp_all

lemma butlast_last_ids:
  "tcs \<noteq> [] \<Longrightarrow> map tc_id (butlast tcs) @ [tc_id (last tcs)] = map tc_id tcs"
  by (induction tcs) auto

lemma openai_accumulate_ids:
  "map tc_id (fst (snd (openai_accumulate E chunk tcs))) = map tc_id tcs
   \<or> (\<exists>i. i \<notin> set (map tc_id tcs)
         \<and> map tc_id (fst (snd (openai_accumulate E chunk tcs))) = map tc_id tcs @ [i])"
proof (cases "firstToolCall chunk")
  case None
  then show ?thesis by (simp add: openai_accumulate_def)
next
  case (Some tool_call)
  note tc = Some
  show ?thesis
  proof (cases "d_function tool_call")
    case None
    with tc show ?thesis by (simp add: openai_accumulate_def)
  next
    case (Some fn)
    note fn = Some
    show ?thesis
    proof (cases "\<exists>c cs. d_id tool_call = Some (c # cs)")
      case True
      then obtain c cs where i: "d_id tool_call = Some (c # cs)" by blast
      show ?thesis
      proof (cases "find (\<lambda>t. tc_id t = c # cs) tcs")
        case None
        then have "c # cs \<notin> set (map tc_id tcs)"
          by (auto simp: find_None_iff)
        with tc fn i None show ?thesis
          by (simp add: openai_accumulate_def Let_def)
      next
        case (Some existing)
        with tc fn i show ?thesis
          by (simp add: openai_accumulate_def)
      qed
    next
      case False
      then have i: "d_id tool_call = None \<or> d_id tool_call = Some []"
      proof (cases "d_id tool_call")
        case None
        then show ?thesis by simp
      next
        case (Some a)
        with False show ?thesis by (cases a) auto
      qed
      show ?thesis
      proof (cases "tcs = []")
        case True
        with tc fn i show ?thesis
          by (auto simp: openai_accumulate_def)
      next
        case ne: False
        have "map tc_id (fst (snd (openai_accumulate E chunk tcs))) = map tc_id tcs"
          using tc fn i ne
          by (auto simp: openai_accumulate_def Let_def butlast_last_ids split: option.splits)
        then show ?thesis by simp
      qed
    qed
  qed
qed

lemma openai_accumulate_distinct:
  "distinct (map tc_id tcs) \<Longrightarrow>
     distinct (map tc_id (fst (snd (openai_accumulate E chunk tcs))))"
  using openai_accumulate_ids [of E chunk tcs] by auto


lemma openai_runTools_no_stream:
  "list_all (\<lambda>e. \<not> isStream e) (fst (openai_runTools E tcs w))"
proof (induction tcs arbitrary: w)
  case Nil
  show ?case by simp
next
  case (Cons tc tcs)
  show ?case
  proof (cases "JSON_parse E (tc_args tc)")
    case None
    then show ?thesis by simp
  next
    case (Some a)
    obtain result w2 where ct: "callTool E (tc_function tc) a w = (result, w2)"
      by (cases "callTool E (tc_function tc) a w") auto
    obtain evs msgs w3 err where rt: "openai_runTools E tcs w2 = (evs, msgs, w3, err)"
      by (cases "openai_runTools E tcs w2") auto
    from Cons.IH [of w2] rt have "list_all (\<lambda>e. \<not> isStream e) evs" by simp
    with Some ct rt show ?thesis by simp
  qed
qed

lemma google_runTools_no_stream:
  "list_all (\<lambda>e. \<not> isStream e) (fst (google_runTools E tcs w))"
proof (induction tcs arbitrary: w)
  case Nil
  show ?case by simp
next
  case (Cons tc tcs)
  show ?case
  proof (cases "JSON_parse E (tc_args tc)")
    case None
    then show ?thesis by (simp add: Let_def)
  next
    case (Some a)
    obtain result w2 where ct: "callTool E (tc_function tc) a w = (result, w2)"
      by (cases "callTool E (tc_function tc) a w") auto
    obtain evs res w3 err where rt: "google_runTools E tcs w2 = (evs, res, w3, err)"
      by (cases "google_runTools E tcs w2") auto
    from Cons.IH [of w2] rt have "list_all (\<lambda>e. \<not> isStream e) evs" by simp
    with Some ct rt show ?thesis by (simp add: Let_def)
  qed
qed

lemma openai_textEvents_frame:
  "o_toolCalls (snd (openai_textEvents chunk c)) = o_toolCalls c"
  "list_all (\<lambda>e. \<not> isStream e) (fst (openai_textEvents chunk c))"
  by (simp_all add: openai_textEvents_def Let_def split: option.splits)

lemma openai_accumulate_no_stream:
  "list_all (\<lambda>e. \<not> isStream e) (fst (openai_accumulate E chunk tcs))"
proof (cases "openai_accumulate E chunk tcs")
  case (fields evs0 tcs1 err)
  from openai_accumulate_events [OF fields] show ?thesis
    using fields by (simp add: list_all_iff)
qed

lemma openai_native_cases:
  "(o_toolCalls (ctx (openai_nativeChunkToLlmChunk A E chunk c w)) = []
     \<or> (o_toolCalls (ctx (openai_nativeChunkToLlmChunk A E chunk c w))
          = fst (snd (openai_accumulate E chunk (o_toolCalls c)))
        \<and> list_all (\<lambda>e. \<not> isStream e) (events (openai_nativeChunkToLlmChunk A E chunk c w))))"
proof -
  obtain evs0 tcs1 err where acc: "openai_accumulate E chunk (o_toolCalls c) = (evs0, tcs1, err)"
    by (cases "openai_accumulate E chunk (o_toolCalls c)") auto
  from openai_accumulate_no_stream [of E chunk "o_toolCalls c"] acc
  have e0: "list_all (\<lambda>e. \<not> isStream e) evs0" by simp
  show ?thesis
  proof (cases err)
    case (Some e)
    with acc e0 show ?thesis by (simp add: openai_nativeChunkToLlmChunk_def)
  next
    case None
    note err = None
    show ?thesis
    proof (cases "finishOf chunk \<in> set [''tool_calls'', ''function_call'', ''stop'']
                 \<and> length tcs1 \<noteq> 0")
      case False
      obtain evs c2 where te: "openai_textEvents chunk (c\<lparr>o_toolCalls := tcs1\<rparr>) = (evs, c2)"
        by (cases "openai_textEvents chunk (c\<lparr>o_toolCalls := tcs1\<rparr>)") auto
      from openai_textEvents_frame [of chunk "c\<lparr>o_toolCalls := tcs1\<rparr>"] te
      have "o_toolCalls c2 = tcs1" "list_all (\<lambda>e. \<not> isStream e) evs" by simp_all
      with acc err False te e0 show ?thesis
        by (auto simp: openai_nativeChunkToLlmChunk_def Let_def)
    next
      case True
      obtain evs msgs w1 rerr where rt: "openai_runTools E tcs1 w = (evs, msgs, w1, rerr)"
        by (cases "openai_runTools E tcs1 w") auto
      from openai_runTools_no_stream [of E tcs1 w] rt
      have ev: "list_all (\<lambda>e. \<not> isStream e) evs" by simp
      show ?thesis
      proof (cases rerr)
        case None
        with acc err True rt show ?thesis
          by (simp add: openai_nativeChunkToLlmChunk_def Let_def openai_doStream_def)
      next
        case (Some e)
        with acc err True rt e0 ev show ?thesis
          by (simp add: openai_nativeChunkToLlmChunk_def Let_def)
      qed
    qed
  qed
qed

lemma openai_native_distinct:
  "distinct (map tc_id (o_toolCalls c)) \<Longrightarrow>
     distinct (map tc_id (o_toolCalls (ctx (openai_nativeChunkToLlmChunk A E chunk c w))))"
  using openai_native_cases [of A E chunk c w] openai_accumulate_distinct [of "o_toolCalls c" E chunk]
  by auto

lemma openai_native_stream_reset:
  "list_ex isStream (events (openai_nativeChunkToLlmChunk A E chunk c w)) \<Longrightarrow>
     o_toolCalls (ctx (openai_nativeChunkToLlmChunk A E chunk c w)) = []"
  using openai_native_cases [of A E chunk c w]
  by (auto simp: list_all_iff list_ex_iff)

lemma openai_translateAll_distinct:
  "distinct (map tc_id (o_toolCalls c)) \<Longrightarrow>
     distinct (map tc_id (o_toolCalls (ctx (openai_translateAll A E chunks c w))))"
proof (induction chunks arbitrary: c w)
  case Nil
  then show ?case by simp
next
  case (Cons chunk chunks)
  from Cons.IH [OF openai_native_distinct [OF Cons.prems, of A E chunk w]]
    openai_native_distinct [OF Cons.prems, of A E chunk w]
  show ?case
    by (simp add: Let_def)
qed

lemma google_native_stream_reset:
  "list_ex isStream (events (google_nativeChunkToLlmChunk E chunk c w)) \<Longrightarrow>
     g_toolCalls (ctx (google_nativeChunkToLlmChunk E chunk c w)) = []"
proof (cases "functionCalls chunk")
  case (Inl e)
  assume "list_ex isStream (events (google_nativeChunkToLlmChunk E chunk c w))"
  with Inl show ?thesis
    by (simp add: google_nativeChunkToLlmChunk_def)
next
  case (Inr toolCalls)
  assume s: "list_ex isStream (events (google_nativeChunkToLlmChunk E chunk c w))"
  show ?thesis
  proof (cases "pendingCalls toolCalls = []")
    case True
    with Inr s show ?thesis
      by (auto simp: google_nativeChunkToLlmChunk_def split: sum.splits option.splits if_splits)
  next
    case False
    obtain evs res w1 err where
      rt: "google_runTools E (google_saveToolCalls E (pendingCalls toolCalls)) w
        = (evs, res, w1, err)"
      by (cases "google_runTools E (google_saveToolCalls E (pendingCalls toolCalls)) w") auto
    from google_runTools_no_stream [of E "google_saveToolCalls E (pendingCalls toolCalls)" w] rt
    have ev: "\<not> list_ex isStream evs" by (simp add: list_all_iff list_ex_iff)
    show ?thesis
    proof (cases err)
      case (Some e)
      with Inr False rt ev s show ?thesis
        by (simp add: google_nativeChunkToLlmChunk_def Let_def)
    next
      case None
      with Inr False rt ev s show ?thesis
        by (cases "candidates chunk")
          (auto simp: google_nativeChunkToLlmChunk_def Let_def google_doStream_def
            split: list.splits)
    qed
  qed
qed


text \<open>
  C4, as the adapters implement it. The in-flight records are empty right after every
  new request: \<open>doStream\<close> clears them, at the start of a streaming turn and whenever a
  translation yields a stream switch. For the OpenAI adapter the ids of the records stay
  pairwise distinct through every step of an attempt: through the folding of a tool call
  delta, through the translation of a chunk and through the translation of any sequence
  of chunks. For the Google adapter the id of a record is the name of its function, so
  the ids of the records of a chunk are the names of its calls.
\<close>

theorem accumulator_reset_and_ids:
  "g_toolCalls (snd (google_doStream gcontext)) = []
   \<and> o_toolCalls (snd (openai_doStream A E ocontext)) = []
   \<and> o_toolCalls (snd (openai_stream A E model thread opts)) = []
   \<and> (\<forall>rq c. google_stream E model thread opts = Inr (rq, c) \<longrightarrow> g_toolCalls c = [])
   \<and> (list_ex isStream (events (google_nativeChunkToLlmChunk E gchunk gcontext w)) \<longrightarrow>
        g_toolCalls (ctx (google_nativeChunkToLlmChunk E gchunk gcontext w)) = [])
   \<and> (list_ex isStream (events (openai_nativeChunkToLlmChunk A E ochunk ocontext w)) \<longrightarrow>
        o_toolCalls (ctx (openai_nativeChunkToLlmChunk A E ochunk ocontext w)) = [])
   \<and> (distinct (map tc_id (o_toolCalls ocontext)) \<longrightarrow>
        distinct (map tc_id (fst (snd (openai_accumulate E ochunk (o_toolCalls ocontext)))))
        \<and> distinct (map tc_id
             (o_toolCalls (ctx (openai_nativeChunkToLlmChunk A E ochunk ocontext w))))
        \<and> distinct (map tc_id
             (o_toolCalls (ctx (openai_translateAll A E ochunks ocontext w)))))
   \<and> distinct (map tc_id (o_toolCalls (ctx
        (openai_translateAll A E ochunks (snd (openai_doStream A E ocontext)) w))))
   \<and> map tc_id (google_saveToolCalls E calls) = map fc_name calls"
proof -
  have r: "g_toolCalls (snd (google_doStream c)) = []"
    "o_toolCalls (snd (openai_doStream A E d)) = []" for c d
    by (simp_all add: google_doStream_def openai_doStream_def Let_def)
  have s: "o_toolCalls (snd (openai_stream A E model thread opts)) = []"
    by (simp add: openai_stream_def Let_def r)
  have g: "\<forall>rq c. google_stream E model thread opts = Inr (rq, c) \<longrightarrow> g_toolCalls c = []"
    by (cases thread) (auto simp: google_stream_def Let_def google_doStream_def)
  have d: "distinct (map tc_id (o_toolCalls (ctx
        (openai_translateAll A E ochunks (snd (openai_doStream A E ocontext)) w))))"
    by (rule openai_translateAll_distinct) (simp add: r)
  show ?thesis
    using r s g d google_native_stream_reset [of E gchunk gcontext w]
      openai_native_stream_reset [of A E ochunk ocontext w]
      openai_accumulate_distinct [of "o_toolCalls ocontext" E ochunk]
      openai_native_distinct [of ocontext A E ochunk w]
      openai_translateAll_distinct [of ocontext A E ochunks w]
      google_saveToolCalls_names(1) [of E calls]
    by simp
qed

text \<open>Two streamed calls, the arguments of the first arriving in a delta without id:
  two records with distinct ids; a new request clears them.\<close>

theorem accumulator_reset_and_ids_witness:
  "distinct (map tc_id (o_toolCalls openai_sampleContext))
   \<and> distinct (map tc_id (o_toolCalls (ctx (openai_translateAll OpenAI sampleEngine
        [openai_callChunk (Some ''call_1'') (Some ''get_weather'') [],
         openai_callChunk None None ''{}'',
         openai_callChunk (Some ''call_2'') (Some ''get_time'') ''{}'']
        openai_sampleContext []))))
   \<and> map (\<lambda>t. (tc_id t, tc_function t, tc_args t))
        (o_toolCalls (ctx (openai_translateAll OpenAI sampleEngine
          [openai_callChunk (Some ''call_1'') (Some ''get_weather'') [],
           openai_callChunk None None ''{}'',
           openai_callChunk (Some ''call_2'') (Some ''get_time'') ''{}'']
          openai_sampleContext [])))
       = [(''call_1'', ''get_weather'', ''{}''), (''call_2'', ''get_time'', ''{}'')]
   \<and> o_toolCalls (snd (openai_doStream OpenAI sampleEngine
        (openai_sampleContext\<lparr>o_toolCalls := [openai_weatherRecord ''call_1'' ''{}'']\<rparr>))) = []"
proof -
  have 0: "distinct (map tc_id (o_toolCalls openai_sampleContext))"
    by (simp add: openai_sampleContext_def)
  have 1: "map (\<lambda>t. (tc_id t, tc_function t, tc_args t))
        (o_toolCalls (ctx (openai_translateAll OpenAI sampleEngine
          [openai_callChunk (Some ''call_1'') (Some ''get_weather'') [],
           openai_callChunk None None ''{}'',
           openai_callChunk (Some ''call_2'') (Some ''get_time'') ''{}'']
          openai_sampleContext [])))
       = [(''call_1'', ''get_weather'', ''{}''), (''call_2'', ''get_time'', ''{}'')]"
    by (simp add: openai_nativeChunkToLlmChunk_def openai_accumulate_def firstToolCall_def
        openai_callChunk_def openai_sampleContext_def finishOf_def openai_textEvents_def
        openai_done_def Let_def appendStr_def sampleEngine_def)
  from accumulator_reset_and_ids [where A = OpenAI and E = sampleEngine
      and ocontext = openai_sampleContext and w = "[]"
      and ochunks = "[openai_callChunk (Some ''call_1'') (Some ''get_weather'') [],
         openai_callChunk None None ''{}'',
         openai_callChunk (Some ''call_2'') (Some ''get_time'') ''{}'']"] 0
  have 2: "distinct (map tc_id (o_toolCalls (ctx (openai_translateAll OpenAI sampleEngine
        [openai_callChunk (Some ''call_1'') (Some ''get_weather'') [],
         openai_callChunk None None ''{}'',
         openai_callChunk (Some ''call_2'') (Some ''get_time'') ''{}'']
        openai_sampleContext []))))"
    by blast
  from accumulator_reset_and_ids [where A = OpenAI and E = sampleEngine
      and ocontext = "openai_sampleContext\<lparr>o_toolCalls := [openai_weatherRecord ''call_1'' ''{}'']\<rparr>"]
  have 3: "o_toolCalls (snd (openai_doStream OpenAI sampleEngine
        (openai_sampleContext\<lparr>o_toolCalls := [openai_weatherRecord ''call_1'' ''{}'']\<rparr>))) = []"
    by blast
  show ?thesis using 0 1 2 3 by blast
qed

text \<open>C4 as stated fails for the Google adapter: a chunk that asks for the weather of
  two cities gives two in-flight records with the same id.\<close>

theorem google_record_ids_counterexample:
  "\<not> distinct (map tc_id (google_saveToolCalls sampleEngine
        [weatherCall, weatherCall\<lparr>fc_args := JObj [(''city'', JStr ''Paris'')]\<rparr>]))
   \<and> map tc_id (google_saveToolCalls sampleEngine
        [weatherCall, weatherCall\<lparr>fc_args := JObj [(''city'', JStr ''Paris'')]\<rparr>])
       = [''get_weather'', ''get_weather'']"
  by (simp add: google_saveToolCalls_def weatherCall_def)

subsection \<open>A streamed answer without tool calls\<close>

lemma functionCalls_None_text:
  "functionCalls ch = Inr None \<Longrightarrow> \<exists>t. gr_text ch = Inr t"
  by (auto simp: functionCalls_def gr_text_def split: option.splits list.splits if_splits)

lemma google_text_chunk:
  assumes "functionCalls ch = Inr None" and "google_done ch = Inr f"
  shows "\<exists>t. google_nativeChunkToLlmChunk E ch c w =
       \<lparr>events = ContentChunk t f #
          (if f \<and> usage (g_opts c) = Some True
           then (case usageMetadata ch of None \<Rightarrow> [] | Some um \<Rightarrow> [UsageChunk (usageOf um)])
           else []),
        ctx = c, world = w, thrown = None\<rparr>"
proof -
  from functionCalls_None_text [OF assms(1)] obtain t where "gr_text ch = Inr t"
    by blast
  with assms show ?thesis
    by (cases "usageMetadata ch") (simp_all add: google_nativeChunkToLlmChunk_def pendingCalls_def)
qed

lemma quiet_events:
  "list_all (\<lambda>e. \<not> isContentDone e \<and> \<not> isUsage e) xs \<Longrightarrow>
     filter isUsage xs = [] \<and> filter isContentDone xs = []
     \<and> list_all (\<lambda>e. \<not> isContentDone e) xs"
  by (induction xs) auto

lemma google_translateAll_undone:
  assumes "\<forall>ch \<in> set cs. functionCalls ch = Inr None \<and> google_done ch = Inr False"
  shows "\<exists>pre. google_translateAll E (cs @ rest) c w =
       (google_translateAll E rest c w)\<lparr>events := pre @ events (google_translateAll E rest c w)\<rparr>
     \<and> list_all (\<lambda>e. \<not> isContentDone e \<and> \<not> isUsage e) pre"
  using assms
proof (induction cs)
  case Nil
  show ?case by (rule exI [of _ "[]"]) simp
next
  case (Cons ch cs)
  then have 1: "functionCalls ch = Inr None" "google_done ch = Inr False"
    and 2: "\<forall>ch \<in> set cs. functionCalls ch = Inr None \<and> google_done ch = Inr False"
    by simp_all
  from Cons.IH [OF 2] obtain pre where
    pre: "google_translateAll E (cs @ rest) c w =
       (google_translateAll E rest c w)\<lparr>events := pre @ events (google_translateAll E rest c w)\<rparr>"
      "list_all (\<lambda>e. \<not> isContentDone e \<and> \<not> isUsage e) pre"
    by blast
  from google_text_chunk [OF 1, of E c w] obtain t where
    t: "google_nativeChunkToLlmChunk E ch c w =
       \<lparr>events = [ContentChunk t False], ctx = c, world = w, thrown = None\<rparr>"
    by auto
  have "google_translateAll E ((ch # cs) @ rest) c w =
       (google_translateAll E rest c w)\<lparr>events :=
          (ContentChunk t False # pre) @ events (google_translateAll E rest c w)\<rparr>"
    using t pre(1) by (simp add: Let_def)
  moreover have "list_all (\<lambda>e. \<not> isContentDone e \<and> \<not> isUsage e) (ContentChunk t False # pre)"
    using pre(2) by simp
  ultimately show ?case by blast
qed

lemma takeWhile_undone:
  "list_all (\<lambda>e. \<not> isContentDone e) xs \<Longrightarrow> isContentDone y \<Longrightarrow>
     takeWhile (\<lambda>e. \<not> isContentDone e) (xs @ y # ys) = xs"
  by (induction xs) simp_all

lemma stream_shape:
  assumes a: "list_all (\<lambda>e. \<not> isContentDone e \<and> \<not> isUsage e) a"
    and u: "list_all isUsage u"
    and b: "filter isContentDone b = []"
  shows "length (filter isContentDone (a @ ContentChunk t True # u @ b)) = 1
    \<and> filter isUsage (a @ ContentChunk t True # u @ b) = u @ filter isUsage b
    \<and> filter isUsage (takeWhile (\<lambda>e. \<not> isContentDone e) (a @ ContentChunk t True # u @ b)) = []"
proof -
  from quiet_events [OF a] have qa: "filter isUsage a = []" "filter isContentDone a = []"
    "list_all (\<lambda>e. \<not> isContentDone e) a"
    by simp_all
  have qu: "filter isUsage u = u" "filter isContentDone u = []"
    using u by (induction u) (auto elim: isUsage.elims)
  have tw: "takeWhile (\<lambda>e. \<not> isContentDone e) (a @ ContentChunk t True # u @ b) = a"
    by (rule takeWhile_undone [OF qa(3)]) simp
  show ?thesis
    unfolding tw using qa qu b by simp
qed

lemma google_stream_summary:
  assumes pre: "\<forall>ch \<in> set cs. functionCalls ch = Inr None \<and> google_done ch = Inr False"
    and post: "\<forall>ch \<in> set ps. functionCalls ch = Inr None \<and> google_done ch = Inr False"
    and l: "functionCalls l = Inr None" "google_done l = Inr True"
  shows "thrown (google_translateAll E (cs @ l # ps) c w) = None
    \<and> length (filter isContentDone (events (google_translateAll E (cs @ l # ps) c w))) = 1
    \<and> length (filter isUsage (events (google_translateAll E (cs @ l # ps) c w))) \<le> 1
    \<and> filter isUsage (events (google_translateAll E (cs @ l # ps) c w)) =
        (if usage (g_opts c) = Some True
         then (case usageMetadata l of None \<Rightarrow> [] | Some um \<Rightarrow> [UsageChunk (usageOf um)])
         else [])
    \<and> filter isUsage (takeWhile (\<lambda>e. \<not> isContentDone e)
         (events (google_translateAll E (cs @ l # ps) c w))) = []"
proof -
  define T where "T = google_translateAll E (cs @ l # ps) c w"
  define u :: "GoogleRequest LlmChunk list"
    where "u = (if usage (g_opts c) = Some True
         then (case usageMetadata l of None \<Rightarrow> [] | Some um \<Rightarrow> [UsageChunk (usageOf um)])
         else [])"
  from google_translateAll_undone [OF pre, of E "l # ps" c w] obtain a where
    a: "T = (google_translateAll E (l # ps) c w)\<lparr>events :=
          a @ events (google_translateAll E (l # ps) c w)\<rparr>"
      "list_all (\<lambda>e. \<not> isContentDone e \<and> \<not> isUsage e) a"
    unfolding T_def by blast
  from google_translateAll_undone [OF post, of E "[]" c w] obtain b where
    b: "google_translateAll E ps c w = \<lparr>events = b, ctx = c, world = w, thrown = None\<rparr>"
      "list_all (\<lambda>e. \<not> isContentDone e \<and> \<not> isUsage e) b"
    by auto
  from google_text_chunk [OF l, of E c w] obtain t where
    t: "google_nativeChunkToLlmChunk E l c w =
       \<lparr>events = ContentChunk t True # u, ctx = c, world = w, thrown = None\<rparr>"
    unfolding u_def by auto
  have th: "thrown T = None" and ev: "events T = a @ ContentChunk t True # u @ b"
    using a(1) b(1) t by (simp_all add: Let_def)
  have "u = [] \<or> (\<exists>x. u = [UsageChunk x])"
    by (cases "usageMetadata l") (simp_all add: u_def)
  then have lu: "list_all isUsage u" "length u \<le> 1"
    by auto
  from quiet_events [OF b(2)] have qb: "filter isContentDone b = []" "filter isUsage b = []"
    by simp_all
  from stream_shape [OF a(2) lu(1) qb(1), of t] qb(2) lu(2) th
  have "thrown T = None
    \<and> length (filter isContentDone (events T)) = 1
    \<and> length (filter isUsage (events T)) \<le> 1
    \<and> filter isUsage (events T) = u
    \<and> filter isUsage (takeWhile (\<lambda>e. \<not> isContentDone e) (events T)) = []"
    unfolding ev by simp
  then show ?thesis
    unfolding T_def u_def .
qed

lemma openai_accumulate_none:
  assumes "\<not> carriesToolCall ch"
  shows "openai_accumulate E ch tcs = ([], tcs, None)"
proof (cases "firstToolCall ch")
  case None
  then show ?thesis by (simp add: openai_accumulate_def)
next
  case (Some t)
  with assms have "d_function t = None" by (simp add: carriesToolCall_def)
  with Some show ?thesis by (simp add: openai_accumulate_def)
qed

lemma openai_text_chunk:
  "\<not> carriesToolCall ch \<Longrightarrow> o_toolCalls c = [] \<Longrightarrow>
     openai_nativeChunkToLlmChunk A E ch c w =
       \<lparr>events = fst (openai_textEvents ch c), ctx = snd (openai_textEvents ch c),
        world = w, thrown = None\<rparr>"
proof -
  assume a: "\<not> carriesToolCall ch" "o_toolCalls c = []"
  from a(2) have c: "c\<lparr>o_toolCalls := []\<rparr> = c" by (cases c) simp
  show ?thesis
    by (cases "openai_textEvents ch c")
      (simp add: openai_nativeChunkToLlmChunk_def openai_accumulate_none [OF a(1)] a(2) c)
qed

lemma openai_textEvents_undone:
  assumes "\<not> openai_done ch" and "\<not> o_done c"
  shows "snd (openai_textEvents ch c) = c"
    and "list_all (\<lambda>e. \<not> isContentDone e \<and> \<not> isUsage e) (fst (openai_textEvents ch c))"
  using assms
  by (simp_all add: openai_textEvents_def Let_def split: option.splits)

lemma openai_done_choices: "openai_done ch \<Longrightarrow> ck_choices ch \<noteq> []"
  by (auto simp: openai_done_def finishOf_def)

lemma openai_textEvents_done:
  assumes "openai_done ch"
  shows "\<exists>r t. fst (openai_textEvents ch c) =
      r @ ContentChunk t True #
        (if usage (o_opts c) = Some True
         then map UsageChunk (List.map_filter ck_usage [ch]) else [])
    \<and> list_all (\<lambda>e. \<not> isContentDone e \<and> \<not> isUsage e) r"
    and "snd (openai_textEvents ch c) = c\<lparr>o_done := True\<rparr>"
proof -
  from openai_done_choices [OF assms] have ne: "length (ck_choices ch) \<noteq> 0" by simp
  show "\<exists>r t. fst (openai_textEvents ch c) =
      r @ ContentChunk t True #
        (if usage (o_opts c) = Some True
         then map UsageChunk (List.map_filter ck_usage [ch]) else [])
    \<and> list_all (\<lambda>e. \<not> isContentDone e \<and> \<not> isUsage e) r"
  proof (cases "ck_usage ch")
    case None
    with assms ne show ?thesis
      by (simp add: openai_textEvents_def Let_def map_filter_simps)
  next
    case (Some u)
    with assms ne show ?thesis
      by (simp add: openai_textEvents_def Let_def map_filter_simps)
  qed
  show "snd (openai_textEvents ch c) = c\<lparr>o_done := True\<rparr>"
    using assms by (simp add: openai_textEvents_def Let_def)
qed

lemma openai_textEvents_after:
  assumes "\<not> openai_done ch" and "o_done c"
  shows "snd (openai_textEvents ch c) = c"
    and "filter isContentDone (fst (openai_textEvents ch c)) = []"
    and "filter isUsage (fst (openai_textEvents ch c)) =
      (if usage (o_opts c) = Some True then map UsageChunk (List.map_filter ck_usage [ch]) else [])"
proof -
  show "snd (openai_textEvents ch c) = c"
    using assms by (simp add: openai_textEvents_def Let_def)
  show "filter isContentDone (fst (openai_textEvents ch c)) = []"
    using assms by (cases "ck_usage ch") (simp_all add: openai_textEvents_def Let_def)
  show "filter isUsage (fst (openai_textEvents ch c)) =
      (if usage (o_opts c) = Some True then map UsageChunk (List.map_filter ck_usage [ch]) else [])"
    using assms
    by (cases "ck_usage ch") (simp_all add: openai_textEvents_def Let_def map_filter_simps)
qed

lemma openai_translateAll_undone:
  assumes "o_toolCalls c = []" and "\<not> o_done c"
    and "\<forall>ch \<in> set cs. \<not> carriesToolCall ch \<and> \<not> openai_done ch"
  shows "\<exists>pre. openai_translateAll A E (cs @ rest) c w =
       (openai_translateAll A E rest c w)\<lparr>events := pre @ events (openai_translateAll A E rest c w)\<rparr>
     \<and> list_all (\<lambda>e. \<not> isContentDone e \<and> \<not> isUsage e) pre"
  using assms(3)
proof (induction cs)
  case Nil
  show ?case by (rule exI [of _ "[]"]) simp
next
  case (Cons ch cs)
  then have 1: "\<not> carriesToolCall ch" "\<not> openai_done ch"
    and 2: "\<forall>ch \<in> set cs. \<not> carriesToolCall ch \<and> \<not> openai_done ch"
    by simp_all
  from Cons.IH [OF 2] obtain pre where
    pre: "openai_translateAll A E (cs @ rest) c w =
       (openai_translateAll A E rest c w)\<lparr>events := pre @ events (openai_translateAll A E rest c w)\<rparr>"
      "list_all (\<lambda>e. \<not> isContentDone e \<and> \<not> isUsage e) pre"
    by blast
  have "openai_translateAll A E ((ch # cs) @ rest) c w =
       (openai_translateAll A E rest c w)\<lparr>events :=
          (fst (openai_textEvents ch c) @ pre) @ events (openai_translateAll A E rest c w)\<rparr>"
    using openai_text_chunk [OF 1(1) assms(1), of A E w]
      openai_textEvents_undone(1) [OF 1(2) assms(2)] pre(1)
    by (simp add: Let_def)
  moreover have "list_all (\<lambda>e. \<not> isContentDone e \<and> \<not> isUsage e)
      (fst (openai_textEvents ch c) @ pre)"
    using openai_textEvents_undone(2) [OF 1(2) assms(2)] pre(2) by simp
  ultimately show ?case by blast
qed

lemma openai_translateAll_after:
  assumes "o_toolCalls c = []" and "o_done c"
    and "\<forall>ch \<in> set cs. \<not> carriesToolCall ch \<and> \<not> openai_done ch"
  shows "thrown (openai_translateAll A E cs c w) = None
    \<and> filter isContentDone (events (openai_translateAll A E cs c w)) = []
    \<and> filter isUsage (events (openai_translateAll A E cs c w)) =
        (if usage (o_opts c) = Some True then map UsageChunk (List.map_filter ck_usage cs) else [])"
  using assms(3)
proof (induction cs)
  case Nil
  show ?case by (simp add: map_filter_simps)
next
  case (Cons ch cs)
  then have 1: "\<not> carriesToolCall ch" "\<not> openai_done ch"
    and 2: "\<forall>ch \<in> set cs. \<not> carriesToolCall ch \<and> \<not> openai_done ch"
    by simp_all
  have n: "openai_nativeChunkToLlmChunk A E ch c w =
       \<lparr>events = fst (openai_textEvents ch c), ctx = c, world = w, thrown = None\<rparr>"
    using openai_text_chunk [OF 1(1) assms(1), of A E w]
      openai_textEvents_after(1) [OF 1(2) assms(2)]
    by simp
  show ?case
    using Cons.IH [OF 2] n openai_textEvents_after(2,3) [OF 1(2) assms(2)]
    by (cases "ck_usage ch") (simp_all add: Let_def map_filter_simps)
qed

lemma openai_stream_summary:
  assumes "o_toolCalls c = []" and "\<not> o_done c"
    and "\<forall>ch \<in> set cs. \<not> carriesToolCall ch \<and> \<not> openai_done ch"
    and "\<forall>ch \<in> set ps. \<not> carriesToolCall ch \<and> \<not> openai_done ch"
    and "\<not> carriesToolCall l" and "openai_done l"
  shows "thrown (openai_translateAll A E (cs @ l # ps) c w) = None
    \<and> length (filter isContentDone (events (openai_translateAll A E (cs @ l # ps) c w))) = 1
    \<and> filter isUsage (events (openai_translateAll A E (cs @ l # ps) c w)) =
        (if usage (o_opts c) = Some True
         then map UsageChunk (List.map_filter ck_usage (l # ps)) else [])
    \<and> filter isUsage (takeWhile (\<lambda>e. \<not> isContentDone e)
         (events (openai_translateAll A E (cs @ l # ps) c w))) = []"
proof -
  define T where "T = openai_translateAll A E (cs @ l # ps) c w"
  define u :: "OpenAIRequest LlmChunk list"
    where "u = (if usage (o_opts c) = Some True
         then map UsageChunk (List.map_filter ck_usage [l]) else [])"
  define c1 where "c1 = c\<lparr>o_done := True\<rparr>"
  define P where "P = openai_translateAll A E ps c1 w"
  from openai_translateAll_undone [OF assms(1,2,3), of A E "l # ps" w] obtain a where
    a: "T = (openai_translateAll A E (l # ps) c w)\<lparr>events :=
          a @ events (openai_translateAll A E (l # ps) c w)\<rparr>"
      "list_all (\<lambda>e. \<not> isContentDone e \<and> \<not> isUsage e) a"
    unfolding T_def by blast
  from openai_textEvents_done(1) [OF assms(6), of c] obtain r t where
    r: "fst (openai_textEvents l c) = r @ ContentChunk t True # u"
      "list_all (\<lambda>e. \<not> isContentDone e \<and> \<not> isUsage e) r"
    unfolding u_def by blast
  have n: "openai_nativeChunkToLlmChunk A E l c w =
      \<lparr>events = r @ ContentChunk t True # u, ctx = c1, world = w, thrown = None\<rparr>"
    using openai_text_chunk [OF assms(5) assms(1), of A E w] r(1)
      openai_textEvents_done(2) [OF assms(6), of c]
    by (simp add: c1_def)
  have c1: "o_toolCalls c1 = []" "o_done c1" "o_opts c1 = o_opts c"
    using assms(1) by (simp_all add: c1_def)
  from openai_translateAll_after [OF c1(1,2) assms(4), of A E w]
  have p: "thrown P = None" "filter isContentDone (events P) = []"
    "filter isUsage (events P) =
        (if usage (o_opts c) = Some True then map UsageChunk (List.map_filter ck_usage ps) else [])"
    by (simp_all add: P_def c1(3))
  have th: "thrown T = None"
    and ev: "events T = (a @ r) @ ContentChunk t True # u @ events P"
    using a(1) n p(1) by (simp_all add: Let_def P_def)
  have q: "list_all (\<lambda>e. \<not> isContentDone e \<and> \<not> isUsage e) (a @ r)"
    using a(2) r(2) by simp
  have "u = [] \<or> (\<exists>x. u = [UsageChunk x])"
    by (cases "ck_usage l") (simp_all add: u_def map_filter_simps)
  then have lu: "list_all isUsage u"
    by auto
  have us: "u @ filter isUsage (events P) =
      (if usage (o_opts c) = Some True
       then map UsageChunk (List.map_filter ck_usage (l # ps)) else [])"
    by (cases "ck_usage l") (simp_all add: u_def p(3) map_filter_simps)
  from stream_shape [OF q lu p(2), of t] th
  have "thrown T = None
    \<and> length (filter isContentDone (events T)) = 1
    \<and> filter isUsage (events T) = u @ filter isUsage (events P)
    \<and> filter isUsage (takeWhile (\<lambda>e. \<not> isContentDone e) (events T)) = []"
    unfolding ev by simp
  then show ?thesis
    unfolding us unfolding T_def .
qed

text \<open>
  C3, as the adapters implement it. Let the chunks of a stream carry no tool calls and
  let exactly one of them carry the finish signal: for the Google adapter a finish
  reason on the first candidate, with the accessors of every chunk returning (so the
  finish reason is not one by which the backend blocks the answer); for the OpenAI
  adapter the finish reason \<open>stop\<close>, \<open>length\<close>, \<open>content_filter\<close> or \<open>eos\<close>, in a
  context that starts without in-flight records and not done. Chunks may follow the
  finish chunk, as the chunk with the usage does that the OpenAI backend sends last.
  Then the translation of the stream does not throw and exactly one of its events is a
  content event with \<open>done\<close>. No usage event comes before it, and there is none unless
  usage is tracked. When usage is tracked, the Google adapter yields the usage of the
  finish chunk if that chunk supplies one, and so at most one usage event; the OpenAI
  adapter yields the usage of the finish chunk and of every chunk after it that
  supplies one, in order, and so at most one usage event when at most one of these
  chunks supplies usage.
\<close>

theorem one_terminal_content_event:
  "((\<forall>ch \<in> set (gcs @ gtail). functionCalls ch = Inr None \<and> google_done ch = Inr False)
      \<and> functionCalls gl = Inr None \<and> google_done gl = Inr True \<longrightarrow>
    (let T = google_translateAll E (gcs @ gl # gtail) gcontext w in
       thrown T = None
       \<and> length (filter isContentDone (events T)) = 1
       \<and> length (filter isUsage (events T)) \<le> 1
       \<and> filter isUsage (events T) =
           (if usage (g_opts gcontext) = Some True
            then (case usageMetadata gl of None \<Rightarrow> [] | Some um \<Rightarrow> [UsageChunk (usageOf um)])
            else [])
       \<and> filter isUsage (takeWhile (\<lambda>e. \<not> isContentDone e) (events T)) = []))
   \<and> (o_toolCalls ocontext = [] \<and> \<not> o_done ocontext
      \<and> (\<forall>ch \<in> set (ocs @ otail). \<not> carriesToolCall ch \<and> \<not> openai_done ch)
      \<and> \<not> carriesToolCall ol \<and> openai_done ol \<longrightarrow>
    (let T = openai_translateAll A E (ocs @ ol # otail) ocontext w in
       thrown T = None
       \<and> length (filter isContentDone (events T)) = 1
       \<and> filter isUsage (events T) =
           (if usage (o_opts ocontext) = Some True
            then map UsageChunk (List.map_filter ck_usage (ol # otail)) else [])
       \<and> (length (List.map_filter ck_usage (ol # otail)) \<le> 1 \<longrightarrow>
            length (filter isUsage (events T)) \<le> 1)
       \<and> filter isUsage (takeWhile (\<lambda>e. \<not> isContentDone e) (events T)) = []))"
proof -
  have g: "let T = google_translateAll E (gcs @ gl # gtail) gcontext w in
       thrown T = None
       \<and> length (filter isContentDone (events T)) = 1
       \<and> length (filter isUsage (events T)) \<le> 1
       \<and> filter isUsage (events T) =
           (if usage (g_opts gcontext) = Some True
            then (case usageMetadata gl of None \<Rightarrow> [] | Some um \<Rightarrow> [UsageChunk (usageOf um)])
            else [])
       \<and> filter isUsage (takeWhile (\<lambda>e. \<not> isContentDone e) (events T)) = []"
    if "\<forall>ch \<in> set (gcs @ gtail). functionCalls ch = Inr None \<and> google_done ch = Inr False"
      "functionCalls gl = Inr None" "google_done gl = Inr True"
  proof -
    from that(1) have
      "\<forall>ch \<in> set gcs. functionCalls ch = Inr None \<and> google_done ch = Inr False"
      "\<forall>ch \<in> set gtail. functionCalls ch = Inr None \<and> google_done ch = Inr False"
      by simp_all
    from google_stream_summary [OF this that(2,3), of E gcontext w] show ?thesis
      unfolding Let_def .
  qed
  have o: "let T = openai_translateAll A E (ocs @ ol # otail) ocontext w in
       thrown T = None
       \<and> length (filter isContentDone (events T)) = 1
       \<and> filter isUsage (events T) =
           (if usage (o_opts ocontext) = Some True
            then map UsageChunk (List.map_filter ck_usage (ol # otail)) else [])
       \<and> (length (List.map_filter ck_usage (ol # otail)) \<le> 1 \<longrightarrow>
            length (filter isUsage (events T)) \<le> 1)
       \<and> filter isUsage (takeWhile (\<lambda>e. \<not> isContentDone e) (events T)) = []"
    if "o_toolCalls ocontext = []" "\<not> o_done ocontext"
      "\<forall>ch \<in> set (ocs @ otail). \<not> carriesToolCall ch \<and> \<not> openai_done ch"
      "\<not> carriesToolCall ol" "openai_done ol"
  proof -
    from that(3) have
      "\<forall>ch \<in> set ocs. \<not> carriesToolCall ch \<and> \<not> openai_done ch"
      "\<forall>ch \<in> set otail. \<not> carriesToolCall ch \<and> \<not> openai_done ch"
      by simp_all
    from openai_stream_summary [OF that(1,2) this that(4,5), of A E w]
    have s: "thrown (openai_translateAll A E (ocs @ ol # otail) ocontext w) = None"
      "length (filter isContentDone
         (events (openai_translateAll A E (ocs @ ol # otail) ocontext w))) = 1"
      "filter isUsage (events (openai_translateAll A E (ocs @ ol # otail) ocontext w)) =
         (if usage (o_opts ocontext) = Some True
          then map UsageChunk (List.map_filter ck_usage (ol # otail)) else [])"
      "filter isUsage (takeWhile (\<lambda>e. \<not> isContentDone e)
         (events (openai_translateAll A E (ocs @ ol # otail) ocontext w))) = []"
      by simp_all
    have "length (filter isUsage (events (openai_translateAll A E (ocs @ ol # otail) ocontext w)))
        \<le> length (List.map_filter ck_usage (ol # otail))"
      unfolding s(3) by simp
    with s show ?thesis
      unfolding Let_def by simp
  qed
  from g o show ?thesis by blast
qed

text \<open>Scenario C, with usage tracked. The Google backend supplies the usage on its
  finish chunk; the OpenAI backend sends it in a last chunk of its own, after the finish
  chunk. Each translation has one content event with \<open>done\<close> and one usage event.\<close>

theorem one_terminal_content_event_witness:
  "(let T = google_translateAll sampleEngine
        [google_textChunk ''su'' None None, google_textChunk ''nny'' None None,
         google_textChunk ''!'' (Some ''STOP'')
           (Some \<lparr>promptTokenCount = Num 20, candidatesTokenCount = Num 7\<rparr>)]
        google_sampleContext [] in
      thrown T = None \<and> length (filter isContentDone (events T)) = 1
      \<and> filter isUsage (events T) = [UsageChunk sampleUsage])
   \<and> (let T = openai_translateAll OpenAI sampleEngine
        [openai_textChunk ''su'' None None, openai_textChunk ''nny'' None None,
         openai_textChunk ''!'' (Some ''stop'') None, openai_usageTrailer sampleUsage]
        openai_sampleContext [] in
      thrown T = None \<and> length (filter isContentDone (events T)) = 1
      \<and> filter isUsage (events T) = [UsageChunk sampleUsage]
      \<and> length (filter isUsage (events T)) \<le> 1)"
proof -
  have g: "(\<forall>ch \<in> set ([google_textChunk ''su'' None None, google_textChunk ''nny'' None None] @ []).
        functionCalls ch = Inr None \<and> google_done ch = Inr False)
      \<and> functionCalls (google_textChunk ''!'' (Some ''STOP'')
           (Some \<lparr>promptTokenCount = Num 20, candidatesTokenCount = Num 7\<rparr>)) = Inr None
      \<and> google_done (google_textChunk ''!'' (Some ''STOP'')
           (Some \<lparr>promptTokenCount = Num 20, candidatesTokenCount = Num 7\<rparr>)) = Inr True"
    by (simp add: google_textChunk_def functionCalls_def hadBadFinishReason_def
        badFinishReasons_def google_done_def)
  have o: "o_toolCalls openai_sampleContext = [] \<and> \<not> o_done openai_sampleContext
      \<and> (\<forall>ch \<in> set ([openai_textChunk ''su'' None None, openai_textChunk ''nny'' None None]
              @ [openai_usageTrailer sampleUsage]).
            \<not> carriesToolCall ch \<and> \<not> openai_done ch)
      \<and> \<not> carriesToolCall (openai_textChunk ''!'' (Some ''stop'') None)
      \<and> openai_done (openai_textChunk ''!'' (Some ''stop'') None)"
    by (simp add: openai_sampleContext_def openai_textChunk_def openai_usageTrailer_def
        carriesToolCall_def firstToolCall_def openai_done_def finishOf_def)
  have u: "List.map_filter ck_usage
        [openai_textChunk ''!'' (Some ''stop'') None, openai_usageTrailer sampleUsage]
      = [sampleUsage]"
    by (simp add: map_filter_simps openai_textChunk_def openai_usageTrailer_def)
  from one_terminal_content_event [where E = sampleEngine and w = "[]"
      and gcs = "[google_textChunk ''su'' None None, google_textChunk ''nny'' None None]"
      and gl = "google_textChunk ''!'' (Some ''STOP'')
           (Some \<lparr>promptTokenCount = Num 20, candidatesTokenCount = Num 7\<rparr>)"
      and gtail = "[]"
      and gcontext = google_sampleContext, THEN conjunct1, rule_format, OF g]
  have 1: "let T = google_translateAll sampleEngine
        [google_textChunk ''su'' None None, google_textChunk ''nny'' None None,
         google_textChunk ''!'' (Some ''STOP'')
           (Some \<lparr>promptTokenCount = Num 20, candidatesTokenCount = Num 7\<rparr>)]
        google_sampleContext [] in
      thrown T = None \<and> length (filter isContentDone (events T)) = 1
      \<and> filter isUsage (events T) = [UsageChunk sampleUsage]"
    by (simp add: Let_def google_sampleContext_def google_textChunk_def usageOf_def
        sampleUsage_def)
  from one_terminal_content_event [where E = sampleEngine and w = "[]" and A = OpenAI
      and ocs = "[openai_textChunk ''su'' None None, openai_textChunk ''nny'' None None]"
      and ol = "openai_textChunk ''!'' (Some ''stop'') None"
      and otail = "[openai_usageTrailer sampleUsage]"
      and ocontext = openai_sampleContext, THEN conjunct2, rule_format, OF o]
  have 2: "let T = openai_translateAll OpenAI sampleEngine
        [openai_textChunk ''su'' None None, openai_textChunk ''nny'' None None,
         openai_textChunk ''!'' (Some ''stop'') None, openai_usageTrailer sampleUsage]
        openai_sampleContext [] in
      thrown T = None \<and> length (filter isContentDone (events T)) = 1
      \<and> filter isUsage (events T) = [UsageChunk sampleUsage]
      \<and> length (filter isUsage (events T)) \<le> 1"
    unfolding u by (simp add: Let_def openai_sampleContext_def noOpts_def)
  from 1 2 show ?thesis by blast
qed

text \<open>C3 as stated fails on both adapters. On the OpenAI adapter, a stream without tool
  calls in which the finish chunk and the chunk after it both supply usage gives two
  usage events. On the Google adapter, a stream without tool calls that ends with the
  finish reason \<open>SAFETY\<close> gives no content event with \<open>done\<close>: the accessors of the
  last chunk throw.\<close>

theorem usage_twice_and_no_done_counterexample:
  "thrown (openai_translateAll OpenAI sampleEngine openai_usageTwiceStream
        openai_sampleContext []) = None
   \<and> filter isUsage (events (openai_translateAll OpenAI sampleEngine openai_usageTwiceStream
        openai_sampleContext [])) = [UsageChunk sampleUsage, UsageChunk sampleUsage]
   \<and> length (filter isContentDone (events (openai_translateAll OpenAI sampleEngine
        openai_usageTwiceStream openai_sampleContext []))) = 1
   \<and> google_done (last google_blockedStream) = Inr True
   \<and> thrown (google_translateAll sampleEngine google_blockedStream google_sampleContext [])
       = Some ResponseError
   \<and> events (google_translateAll sampleEngine google_blockedStream google_sampleContext [])
       = [ContentChunk ''sunny'' False]"
proof -
  have o: "openai_translateAll OpenAI sampleEngine openai_usageTwiceStream
        openai_sampleContext [] =
      \<lparr>events = [ContentChunk ''sunny'' False, ContentChunk [] True, UsageChunk sampleUsage,
         UsageChunk sampleUsage],
       ctx = openai_sampleContext\<lparr>o_done := True\<rparr>, world = [], thrown = None\<rparr>"
    by (simp add: openai_usageTwiceStream_def openai_nativeChunkToLlmChunk_def
        openai_accumulate_def firstToolCall_def openai_textChunk_def openai_usageTrailer_def
        openai_sampleContext_def finishOf_def openai_textEvents_def openai_done_def Let_def
        noOpts_def)
  have g: "google_translateAll sampleEngine google_blockedStream google_sampleContext [] =
      \<lparr>events = [ContentChunk ''sunny'' False], ctx = google_sampleContext, world = [],
       thrown = Some ResponseError\<rparr>"
    by (simp add: google_blockedStream_def google_nativeChunkToLlmChunk_def
        google_textChunk_def functionCalls_def gr_text_def hadBadFinishReason_def
        badFinishReasons_def pendingCalls_def google_done_def Let_def)
  have d: "google_done (last google_blockedStream) = Inr True"
    by (simp add: google_blockedStream_def google_textChunk_def google_done_def)
  show ?thesis
    unfolding o g using d by simp
qed

end
